theory Spec2Isabelle
  imports Main
begin

section \<open>Go strings and the \<open>strings\<close> package\<close>

text \<open>
  A Go string is a sequence of bytes, and \<open>len\<close> counts bytes. It is modelled as
  \<^typ>\<open>string\<close>, a list of 8-bit characters.
\<close>

text \<open>\<open>strings.HasPrefix(s, prefix)\<close> and \<open>strings.HasSuffix(s, suffix)\<close>.\<close>

fun HasPrefix :: "string \<Rightarrow> string \<Rightarrow> bool" where
  "HasPrefix s [] = True"
| "HasPrefix [] (p # ps) = False"
| "HasPrefix (c # cs) (p # ps) = (c = p \<and> HasPrefix cs ps)"

definition HasSuffix :: "string \<Rightarrow> string \<Rightarrow> bool" where
  "HasSuffix s suffix = HasPrefix (rev s) (rev suffix)"

text \<open>\<open>strings.TrimSuffix(s, suffix)\<close>.\<close>

definition TrimSuffix :: "string \<Rightarrow> string \<Rightarrow> string" where
  "TrimSuffix s suffix = (if HasSuffix s suffix then take (length s - length suffix) s else s)"

text \<open>\<open>strings.Contains(s, substr)\<close>: \<open>substr\<close> occurs somewhere within \<open>s\<close>.\<close>

fun Contains :: "string \<Rightarrow> string \<Rightarrow> bool" where
  "Contains [] sub = (sub = [])"
| "Contains (c # cs) sub = (HasPrefix (c # cs) sub \<or> Contains cs sub)"

text \<open>
  \<open>strings.Replace(s, old, new, 1)\<close>: the leftmost occurrence of \<open>old\<close> is replaced
  by \<open>new\<close>; without an occurrence the string is returned as it is. For an empty
  \<open>old\<close> the match is at the start of the string.
\<close>

fun ReplaceFirst :: "string \<Rightarrow> string \<Rightarrow> string \<Rightarrow> string" where
  "ReplaceFirst [] old new = (if old = [] then new else [])"
| "ReplaceFirst (c # cs) old new =
     (if HasPrefix (c # cs) old then new @ drop (length old) (c # cs)
      else c # ReplaceFirst cs old new)"

text \<open>
  \<open>strings.TrimSpace(s)\<close> removes the leading and the trailing white space, as Unicode
  defines it. On the bytes of the string these are the six ASCII characters tab, line
  feed, vertical tab, form feed, carriage return and space, and the UTF-8 encodings of
  U+0085, U+00A0, U+1680, U+2000 to U+200A, U+2028, U+2029, U+202F, U+205F and U+3000.
\<close>

definition asciiSpace :: "char list" where
  "asciiSpace = [CHR 0x09, CHR 0x0A, CHR 0x0B, CHR 0x0C, CHR 0x0D, CHR 0x20]"

definition spaceRunes :: "string list" where
  "spaceRunes =
     map (\<lambda>c. [c]) asciiSpace @
     [[CHR 0xC2, CHR 0x85], [CHR 0xC2, CHR 0xA0], [CHR 0xE1, CHR 0x9A, CHR 0x80]] @
     map (\<lambda>c. [CHR 0xE2, CHR 0x80, c])
       [CHR 0x80, CHR 0x81, CHR 0x82, CHR 0x83, CHR 0x84, CHR 0x85, CHR 0x86, CHR 0x87,
        CHR 0x88, CHR 0x89, CHR 0x8A, CHR 0xA8, CHR 0xA9, CHR 0xAF] @
     [[CHR 0xE2, CHR 0x81, CHR 0x9F], [CHR 0xE3, CHR 0x80, CHR 0x80]]"

text \<open>The length of the white-space rune that \<open>s\<close> starts with, 0 when there is none.\<close>

definition leadingRune :: "string list \<Rightarrow> string \<Rightarrow> nat" where
  "leadingRune rs s = (case filter (HasPrefix s) rs of [] \<Rightarrow> 0 | r # _ \<Rightarrow> length r)"

function trimLeading :: "string list \<Rightarrow> string \<Rightarrow> string" where
  "trimLeading rs s =
     (if s \<noteq> [] \<and> 0 < leadingRune rs s then trimLeading rs (drop (leadingRune rs s) s)
      else s)"
  by pat_completeness auto
termination
  by (relation "measure (\<lambda>(rs, s). length s)") auto

definition TrimSpace :: "string \<Rightarrow> string" where
  "TrimSpace s = rev (trimLeading (map rev spaceRunes) (rev (trimLeading spaceRunes s)))"

section \<open>The \<open>path/filepath\<close> package, on a Unix system\<close>

text \<open>The elements of a path between its slashes, and their concatenation with slashes.\<close>

fun splitSlash :: "string \<Rightarrow> string list" where
  "splitSlash [] = [[]]"
| "splitSlash (c # cs) =
     (if c = CHR ''/'' then [] # splitSlash cs
      else (case splitSlash cs of [] \<Rightarrow> [[c]] | x # xs \<Rightarrow> (c # x) # xs))"

fun joinSlash :: "string list \<Rightarrow> string" where
  "joinSlash [] = []"
| "joinSlash [x] = x"
| "joinSlash (x # y # ys) = x @ CHR ''/'' # joinSlash (y # ys)"

text \<open>
  \<open>filepath.Clean\<close> works through the elements of the path from left to right and
  keeps the elements of the result, the last one first: an empty element and \<open>.\<close> are
  dropped, \<open>..\<close> removes the element before it, is dropped at the root, and is kept at
  the start of a relative path. The empty result is \<open>.\<close>.
\<close>

definition cleanStep :: "bool \<Rightarrow> string list \<Rightarrow> string \<Rightarrow> string list" where
  "cleanStep rooted st c =
     (if c = [] \<or> c = ''.'' then st
      else if c = ''..'' then
        (case st of
           [] \<Rightarrow> if rooted then [] else [''..'']
         | t # ts \<Rightarrow> if t = ''..'' then ''..'' # st else ts)
      else c # st)"

definition Clean :: "string \<Rightarrow> string" where
  "Clean path =
     (if path = [] then ''.''
      else
        let rooted = (hd path = CHR ''/'');
            out = (if rooted then ''/'' else []) @
                  joinSlash (rev (foldl (cleanStep rooted) [] (splitSlash path)))
        in if out = [] then ''.'' else out)"

text \<open>
  \<open>filepath.Join\<close> (and \<open>path.Join\<close>, the same function on Unix): the empty elements
  at the start are ignored, the others are joined with slashes and cleaned.
\<close>

definition Join :: "string list \<Rightarrow> string" where
  "Join elem =
     (case dropWhile (\<lambda>e. e = []) elem of [] \<Rightarrow> [] | e # es \<Rightarrow> Clean (joinSlash (e # es)))"

text \<open>\<open>filepath.Dir\<close>: all but the last element of the path, cleaned.\<close>

definition Dir :: "string \<Rightarrow> string" where
  "Dir path = Clean (rev (dropWhile (\<lambda>c. c \<noteq> CHR ''/'') (rev path)))"

text \<open>\<open>filepath.Base\<close>: the last element of the path, trailing slashes removed first.\<close>

definition Base :: "string \<Rightarrow> string" where
  "Base path =
     (if path = [] then ''.''
      else
        let p = rev (dropWhile (\<lambda>c. c = CHR ''/'') (rev path));
            b = rev (takeWhile (\<lambda>c. c \<noteq> CHR ''/'') (rev p))
        in if b = [] then ''/'' else b)"

text \<open>\<open>filepath.Ext\<close>: the suffix from the last dot of the last element, if any.\<close>

definition Ext :: "string \<Rightarrow> string" where
  "Ext path =
     (let r = rev path;
          t = takeWhile (\<lambda>c. c \<noteq> CHR ''.'' \<and> c \<noteq> CHR ''/'') r
      in case drop (length t) r of
           [] \<Rightarrow> []
         | c # _ \<Rightarrow> if c = CHR ''.'' then CHR ''.'' # rev t else [])"

section \<open>Constants of \<open>config.go\<close>\<close>

abbreviation uiPasswordMinLength :: nat where "uiPasswordMinLength \<equiv> 8"
abbreviation defaultHTTPSListen :: string where "defaultHTTPSListen \<equiv> ''127.0.0.1:8443''"
abbreviation ModeIntegrated :: string where "ModeIntegrated \<equiv> ''integrated''"
abbreviation ModeRemote :: string where "ModeRemote \<equiv> ''remote''"
abbreviation defaultLndMode :: string where "defaultLndMode \<equiv> ModeRemote"
abbreviation defaultConfigFilename :: string where "defaultConfigFilename \<equiv> ''lit.conf''"
abbreviation defaultLogLevel :: string where "defaultLogLevel \<equiv> ''info''"
abbreviation defaultMaxLogFiles :: int where "defaultMaxLogFiles \<equiv> 3"
abbreviation defaultMaxLogFileSize :: int where "defaultMaxLogFileSize \<equiv> 10"
abbreviation defaultLetsEncryptSubDir :: string where "defaultLetsEncryptSubDir \<equiv> ''letsencrypt''"
abbreviation defaultLetsEncryptListen :: string where "defaultLetsEncryptListen \<equiv> '':80''"
abbreviation defaultSelfSignedCertOrganization :: string where
  "defaultSelfSignedCertOrganization \<equiv> ''litd autogenerated cert''"
abbreviation defaultLogDirname :: string where "defaultLogDirname \<equiv> ''logs''"
abbreviation defaultLogFilename :: string where "defaultLogFilename \<equiv> ''litd.log''"
abbreviation defaultTLSCertFilename :: string where "defaultTLSCertFilename \<equiv> ''tls.cert''"
abbreviation defaultTLSKeyFilename :: string where "defaultTLSKeyFilename \<equiv> ''tls.key''"
abbreviation defaultNetwork :: string where "defaultNetwork \<equiv> ''mainnet''"
abbreviation defaultRemoteLndRpcServer :: string where
  "defaultRemoteLndRpcServer \<equiv> ''localhost:10009''"
abbreviation defaultLndChainSubDir :: string where "defaultLndChainSubDir \<equiv> ''chain''"
abbreviation defaultLndChain :: string where "defaultLndChain \<equiv> ''bitcoin''"
abbreviation defaultLndMacaroon :: string where "defaultLndMacaroon \<equiv> ''admin.macaroon''"

section \<open>The configuration structs\<close>

text \<open>
  A \<open>net.Addr\<close> is an interface with the methods \<open>Network()\<close> and \<open>String()\<close>. Of
  a \<open>*net.TCPAddr\<close> the code also asks whether its IP is an IPv4 address
  (\<open>addr.IP.To4() != nil\<close>).
\<close>

datatype Addr =
    TCPAddr (To4: bool) (addrString: string)
  | NetAddr (addrNetwork: string) (addrString: string)

text \<open>\<open>lncfg.Chain\<close>, the fields that \<open>getNetwork\<close> reads.\<close>

record Chain =
  MainNet :: bool
  TestNet3 :: bool
  RegTest :: bool
  SimNet :: bool

text \<open>The log writer that \<open>lnd.Config\<close> points to.\<close>

datatype LogWriter = LndLogWriter | RotatingLogWriter

text \<open>\<open>lnd.Config\<close>, the fields that \<open>config.go\<close> uses.\<close>

record LndConfig =
  ShowVersion :: bool
  RPCListeners :: "Addr list"
  LndTLSCertPath :: string
  LndTLSKeyPath :: string
  AdminMacPath :: string
  DataDir :: string
  Bitcoin :: Chain
  LogWriter :: LogWriter

text \<open>\<open>loopd.Config\<close>, \<open>pool.Config\<close>, \<open>faraday.Config\<close> and \<open>frdrpc.Config\<close> likewise.\<close>

record LoopConfig =
  LoopNetwork :: string

record PoolConfig =
  PoolNetwork :: string

record FaradayConfig =
  FaradayNetwork :: string
  FaradayDir :: string
  FaradayMacaroonPath :: string
  ChainConn :: bool
  FaradayBitcoin :: string

record FrdrpcConfig =
  RpcFaradayDir :: string
  RpcMacaroonPath :: string
  BitcoinClient :: "string option"

record RemoteDaemonConfig =
  Network :: string
  RPCServer :: string
  MacaroonDir :: string
  MacaroonPath :: string
  TLSCertPath :: string

record RemoteConfig =
  LitTLSCertPath :: string
  LitTLSKeyPath :: string
  LitLogDir :: string
  LitMaxLogFiles :: int
  LitMaxLogFileSize :: int
  LitDebugLevel :: string
  RemoteLnd :: RemoteDaemonConfig

record Config =
  HTTPSListen :: string
  HTTPListen :: string
  UIPassword :: string
  UIPasswordFile :: string
  UIPasswordEnv :: string
  LetsEncrypt :: bool
  LetsEncryptHost :: string
  LetsEncryptDir :: string
  LetsEncryptListen :: string
  LndMode :: string
  LitDir :: string
  ConfigFile :: string
  Remote :: RemoteConfig
  Faraday :: FaradayConfig
  Loop :: LoopConfig
  Pool :: PoolConfig
  Lnd :: LndConfig
  faradayRpcConfig :: FrdrpcConfig
  network :: string

section \<open>Errors, output and abnormal termination\<close>

text \<open>What \<open>os.MkdirAll\<close> can fail with: an \<open>*os.PathError\<close> (its path, whether
  \<open>os.IsExist\<close> holds of it, its text), or another error.\<close>

datatype mkdir_error = PathError string bool string | OtherMkdirError string

text \<open>Why a directory could not be created: the operating system's error, or the
  message \<open>is symlink %s -> %s mounted?\<close>.\<close>

datatype dir_reason = OSFailure mkdir_error | SymlinkNotMounted string string

text \<open>
  Every error that the functions of \<open>config.go\<close> make, one constructor for each
  \<open>fmt.Errorf\<close> or \<open>errors.New\<close>. \<open>ExternalError\<close> is an error of a collaborator
  that the code returns as it got it.
\<close>

datatype error =
    FlagsParseError string
  | ExternalError string
  | InvalidMode string
  | InvalidNetwork string
  | NoNetworkSelected
  | ConflictingMacaroonConfig
  | DirectoryCreateFailed string dir_reason
  | LogRotationFailed string
  | MissingACMEHost
  | PasswordReadFailed error
  | FileUnreadable string string
  | EnvVarEmpty string
  | NoCredentialConfigured
  | CredentialTooWeak
  | TooManyListeners
  | CertGenerationFailed string
  | CertLoadFailed string
  | H2SetupFailed string

text \<open>What the code writes: a line on standard output or on standard error, or a
  warning given to the logger (\<open>log.Warnf\<close>).\<close>

datatype event = Stdout string | Stderr error | LogWarn string

text \<open>A call returns, or the process exits (\<open>os.Exit\<close>), or the call panics.\<close>

datatype 'a outcome = Returns 'a | Exits int | Panics string

text \<open>What \<open>flags.IniParse\<close> can fail with: a \<open>*flags.IniError\<close>, or another error
  (the file cannot be opened, for one).\<close>

datatype ini_error = IniError string | IniOtherError string

section \<open>The collaborators\<close>

text \<open>\<open>tls.Certificate\<close> and \<open>tls.Config\<close>, as far as \<open>config.go\<close> builds them.
  \<open>GetCertificate\<close> holds the host that the ACME manager serves, if it is set.\<close>

datatype Certificate = Certificate string string

record TLSConfig =
  Certificates :: "Certificate list"
  CipherSuites :: "nat list"
  GetCertificate :: "string option"
  NextProtos :: "string list"

abbreviation TLS_ECDHE_RSA_WITH_AES_128_GCM_SHA256 :: nat where
  "TLS_ECDHE_RSA_WITH_AES_128_GCM_SHA256 \<equiv> 0xc02f"

type_synonym fs = "string \<rightharpoonup> string"

text \<open>
  Everything outside \<open>config.go\<close> that its functions call or read: the package-level
  defaults computed by other packages, the flag and ini parsers, the file system, the
  environment, the validators of the sub-daemons, the certificate and network
  libraries. Each is a function of its arguments; an error is its text.
\<close>

record world =
  defaultLitDir :: string
  lndDefaultConfig :: LndConfig
  faradayDefaultConfig :: FaradayConfig
  loopDefaultConfig :: LoopConfig
  poolDefaultConfig :: PoolConfig
  osArgs0 :: string
  buildVersion :: string
  buildCommit :: string
  flagsParse :: "Config \<Rightarrow> string + Config"
  IniParse :: "string \<Rightarrow> Config \<Rightarrow> Config \<times> ini_error option"
  CleanAndExpandPath :: "string \<Rightarrow> string"
  MkdirAll :: "string \<Rightarrow> mkdir_error option"
  Readlink :: "string \<Rightarrow> string option"
  files :: fs
  environ :: "string \<rightharpoonup> string"
  lndValidateConfig :: "LndConfig \<Rightarrow> string \<Rightarrow> string + LndConfig"
  loopdValidate :: "LoopConfig \<Rightarrow> string + LoopConfig"
  poolValidate :: "PoolConfig \<Rightarrow> string + PoolConfig"
  faradayValidateConfig :: "FaradayConfig \<Rightarrow> string + FaradayConfig"
  NewBitcoinClient :: "string \<Rightarrow> string + string"
  InitLogRotator :: "string \<Rightarrow> int \<Rightarrow> int \<Rightarrow> string option"
  ParseAndSetDebugLevels :: "string \<Rightarrow> string option"
  GenCertPair :: "fs \<Rightarrow> string \<Rightarrow> string \<Rightarrow> string \<Rightarrow> fs \<times> string option"
  X509KeyPair :: "string \<Rightarrow> string \<Rightarrow> string + Certificate"
  lndCipherSuites :: "nat list"
  TlsConfigWithHttp2Enabled :: "TLSConfig \<Rightarrow> string + TLSConfig"
  netListen :: "string \<Rightarrow> string \<Rightarrow> string + nat"
  lisAccept :: "nat \<Rightarrow> string + nat"
  lisClose :: "nat \<Rightarrow> string option"

text \<open>\<open>ioutil.ReadFile\<close> and \<open>os.Getenv\<close> (the empty string for an unset variable).\<close>

definition ReadFile :: "world \<Rightarrow> string \<Rightarrow> string + string" where
  "ReadFile w name =
     (case files w name of None \<Rightarrow> Inl ''no such file or directory'' | Some content \<Rightarrow> Inr content)"

definition Getenv :: "world \<Rightarrow> string \<Rightarrow> string" where
  "Getenv w key = (case environ w key of None \<Rightarrow> [] | Some v \<Rightarrow> v)"

text \<open>\<open>lnrpc.FileExists\<close>.\<close>

definition FileExists :: "fs \<Rightarrow> string \<Rightarrow> bool" where
  "FileExists f name = (f name \<noteq> None)"

text \<open>\<open>cert.LoadCert\<close> reads the two files and parses them as a key pair.\<close>

definition LoadCert :: "world \<Rightarrow> fs \<Rightarrow> string \<Rightarrow> string \<Rightarrow> string + Certificate" where
  "LoadCert w f certPath keyPath =
     (case f certPath of
        None \<Rightarrow> Inl ''no such file or directory''
      | Some certBytes \<Rightarrow>
          (case f keyPath of
             None \<Rightarrow> Inl ''no such file or directory''
           | Some keyBytes \<Rightarrow> X509KeyPair w certBytes keyBytes))"

text \<open>\<open>cert.TLSConfFromCert\<close>: the certificate with lnd's own cipher suites.\<close>

definition TLSConfFromCert :: "world \<Rightarrow> Certificate \<Rightarrow> TLSConfig" where
  "TLSConfFromCert w c =
     \<lparr>Certificates = [c], CipherSuites = lndCipherSuites w, GetCertificate = None,
      NextProtos = []\<rparr>"

text \<open>\<open>lndclient.Network(n).ChainParams()\<close> knows the four networks and fails for
  every other name.\<close>

definition ChainParamsOk :: "string \<Rightarrow> bool" where
  "ChainParamsOk n = (n = ''mainnet'' \<or> n = ''testnet'' \<or> n = ''regtest'' \<or> n = ''simnet'')"

section \<open>Package-level defaults\<close>

text \<open>
  These are computed once, when the package is initialised: \<open>lndDefaultConfig w\<close> is
  what \<open>lnd.DefaultConfig()\<close> returned then, before any flag was parsed.
\<close>

definition defaultTLSCertPath :: "world \<Rightarrow> string" where
  "defaultTLSCertPath w = Join [defaultLitDir w, defaultTLSCertFilename]"

definition defaultTLSKeyPath :: "world \<Rightarrow> string" where
  "defaultTLSKeyPath w = Join [defaultLitDir w, defaultTLSKeyFilename]"

definition defaultConfigFile :: "world \<Rightarrow> string" where
  "defaultConfigFile w = Join [defaultLitDir w, defaultConfigFilename]"

definition defaultLogDir :: "world \<Rightarrow> string" where
  "defaultLogDir w = Join [defaultLitDir w, defaultLogDirname]"

definition defaultLetsEncryptDir :: "world \<Rightarrow> string" where
  "defaultLetsEncryptDir w = Join [defaultLitDir w, defaultLetsEncryptSubDir]"

definition defaultRemoteLndMacDir :: "world \<Rightarrow> string" where
  "defaultRemoteLndMacDir w =
     Join [DataDir (lndDefaultConfig w), defaultLndChainSubDir, defaultLndChain, defaultNetwork]"

definition defaultConfig :: "world \<Rightarrow> Config" where
  "defaultConfig w =
     \<lparr>HTTPSListen = defaultHTTPSListen,
      HTTPListen = [],
      UIPassword = [],
      UIPasswordFile = [],
      UIPasswordEnv = [],
      LetsEncrypt = False,
      LetsEncryptHost = [],
      LetsEncryptDir = defaultLetsEncryptDir w,
      LetsEncryptListen = defaultLetsEncryptListen,
      LndMode = defaultLndMode,
      LitDir = defaultLitDir w,
      ConfigFile = defaultConfigFile w,
      Remote =
        \<lparr>LitTLSCertPath = defaultTLSCertPath w,
         LitTLSKeyPath = defaultTLSKeyPath w,
         LitLogDir = defaultLogDir w,
         LitMaxLogFiles = defaultMaxLogFiles,
         LitMaxLogFileSize = defaultMaxLogFileSize,
         LitDebugLevel = defaultLogLevel,
         RemoteLnd =
           \<lparr>Network = defaultNetwork,
            RPCServer = defaultRemoteLndRpcServer,
            MacaroonDir = defaultRemoteLndMacDir w,
            MacaroonPath = [],
            TLSCertPath = LndTLSCertPath (lndDefaultConfig w)\<rparr>\<rparr>,
      Faraday = faradayDefaultConfig w,
      Loop = loopDefaultConfig w,
      Pool = poolDefaultConfig w,
      Lnd = lndDefaultConfig w,
      faradayRpcConfig = \<lparr>RpcFaradayDir = [], RpcMacaroonPath = [], BitcoinClient = None\<rparr>,
      network = []\<rparr>"

section \<open>\<open>lndConnectParams\<close>\<close>

text \<open>
  The \<open>switch\<close> of \<open>lndConnectParams\<close> that rewrites the listen address of the
  in-process lnd into an address that can be dialled.
\<close>

definition rewriteDialAddr :: "string \<Rightarrow> string" where
  "rewriteDialAddr lndDialAddr =
     (if Contains lndDialAddr ''0.0.0.0''
        then ReplaceFirst lndDialAddr ''0.0.0.0'' ''127.0.0.1''
      else if Contains lndDialAddr ''[::]''
        then ReplaceFirst lndDialAddr ''[::]'' ''[::1]''
      else lndDialAddr)"

text \<open>
  The result is the dial address, the network, the path of the TLS certificate and the
  path of the macaroon. \<open>c.Lnd.RPCListeners[0]\<close> panics on an empty slice.
\<close>

definition lndConnectParams :: "world \<Rightarrow> Config \<Rightarrow> (string \<times> string \<times> string \<times> string) outcome" where
  "lndConnectParams w c =
     (if LndMode c = ModeRemote then
        let rlnd = RemoteLnd (Remote c);
            macPath = (if MacaroonPath rlnd \<noteq> [] then CleanAndExpandPath w (MacaroonPath rlnd)
                       else Join [CleanAndExpandPath w (MacaroonDir rlnd), defaultLndMacaroon])
        in Returns (RPCServer rlnd, network c, CleanAndExpandPath w (TLSCertPath rlnd), macPath)
      else
        (case RPCListeners (Lnd c) of
           [] \<Rightarrow> Panics ''index out of range [0] with length 0''
         | a # _ \<Rightarrow>
             Returns (rewriteDialAddr (addrString a), network c, LndTLSCertPath (Lnd c),
               AdminMacPath (Lnd c))))"

section \<open>\<open>makeDirectories\<close>, \<open>getNetwork\<close>, \<open>readUIPassword\<close>\<close>

text \<open>The error is also printed on standard error.\<close>

definition makeDirectories :: "world \<Rightarrow> string \<Rightarrow> event list \<times> error option" where
  "makeDirectories w fullDir =
     (case MkdirAll w fullDir of
        None \<Rightarrow> ([], None)
      | Some err \<Rightarrow>
          let reason =
                (case err of
                   PathError p isExist msg \<Rightarrow>
                     (if isExist then
                        (case Readlink w p of
                           Some link \<Rightarrow> SymlinkNotMounted p link
                         | None \<Rightarrow> OSFailure err)
                      else OSFailure err)
                 | OtherMkdirError msg \<Rightarrow> OSFailure err);
              e = DirectoryCreateFailed fullDir reason
          in ([Stderr e], Some e))"

definition getNetwork :: "Chain \<Rightarrow> error + string" where
  "getNetwork cfg =
     (if MainNet cfg then Inr ''mainnet''
      else if TestNet3 cfg then Inr ''testnet''
      else if RegTest cfg then Inr ''regtest''
      else if SimNet cfg then Inr ''simnet''
      else Inl NoNetworkSelected)"

text \<open>
  \<open>readUIPassword\<close> writes the password into \<open>config.UIPassword\<close>; the model returns
  the updated configuration, or the error.
\<close>

definition readUIPassword :: "world \<Rightarrow> Config \<Rightarrow> error + Config" where
  "readUIPassword w config =
     (if 0 < length (TrimSpace (UIPassword config)) then
        Inr (config\<lparr>UIPassword := TrimSpace (UIPassword config)\<rparr>)
      else if 0 < length (TrimSpace (UIPasswordFile config)) then
        (case ReadFile w (TrimSpace (UIPasswordFile config)) of
           Inl err \<Rightarrow> Inl (FileUnreadable (UIPasswordFile config) err)
         | Inr content \<Rightarrow> Inr (config\<lparr>UIPassword := TrimSpace content\<rparr>))
      else if 0 < length (TrimSpace (UIPasswordEnv config)) then
        (let content = Getenv w (TrimSpace (UIPasswordEnv config))
         in if length content = 0 then Inl (EnvVarEmpty (UIPasswordEnv config))
            else Inr (config\<lparr>UIPassword := TrimSpace content\<rparr>))
      else Inl NoCredentialConfigured)"

section \<open>\<open>validateRemoteModeConfig\<close>\<close>

text \<open>
  The function writes through the pointer \<open>cfg\<close> while it validates, so the model
  returns the configuration as it stands when the function returns, with the error if
  there is one.

  \<open>cfg.Lnd\<close> is the pointer to the package variable \<open>lndDefaultConfig\<close> that
  \<open>defaultConfig\<close> stored, and remote mode never replaces it: the flag and ini
  parsers write lnd's options into that variable. So \<open>lndDefaultConfig.DataDir\<close>,
  read here at run time, is \<open>DataDir (Lnd cfg)\<close>, while \<open>defaultRemoteLndMacDir\<close>
  was computed from the data directory at initialisation.
\<close>

definition validateRemoteModeConfig :: "world \<Rightarrow> Config \<Rightarrow> event list \<times> Config \<times> error option" where
  "validateRemoteModeConfig w cfg0 =
     (let r = Remote cfg0 in
      if \<not> ChainParamsOk (Network (RemoteLnd r)) then
        ([], cfg0, Some (InvalidNetwork (Network (RemoteLnd r))))
      else
        let cfg1 = cfg0\<lparr>network := Network (RemoteLnd r)\<rparr> in
        if MacaroonDir (RemoteLnd r) \<noteq> defaultRemoteLndMacDir w \<and> MacaroonPath (RemoteLnd r) \<noteq> []
        then ([], cfg1, Some ConflictingMacaroonConfig)
        else
          let r1 = (if Network (RemoteLnd r) \<noteq> defaultNetwork \<and>
                       MacaroonDir (RemoteLnd r) = defaultRemoteLndMacDir w
                    then r\<lparr>RemoteLnd := (RemoteLnd r)\<lparr>MacaroonDir :=
                           Join [DataDir (Lnd cfg0), defaultLndChainSubDir,
                                 defaultLndChain, Network (RemoteLnd r)]\<rparr>\<rparr>
                    else r);
              litDir = CleanAndExpandPath w (LitDir cfg1);
              r2 = (if litDir \<noteq> defaultLitDir w
                    then r1\<lparr>LitTLSCertPath := Join [litDir, defaultTLSCertFilename],
                            LitTLSKeyPath := Join [litDir, defaultTLSKeyFilename],
                            LitLogDir := Join [litDir, defaultLogDirname]\<rparr>
                    else r1);
              r3 = r2\<lparr>LitTLSCertPath := CleanAndExpandPath w (LitTLSCertPath r2),
                      LitTLSKeyPath := CleanAndExpandPath w (LitTLSKeyPath r2),
                      LitLogDir := CleanAndExpandPath w (LitLogDir r2)\<rparr>;
              cfg2 = cfg1\<lparr>Remote := r3\<rparr>
          in
            (case makeDirectories w (Dir (LitTLSCertPath r3)) of
               (ev1, Some e) \<Rightarrow> (ev1, cfg2, Some e)
             | (ev1, None) \<Rightarrow>
                 (case makeDirectories w (Dir (LitTLSKeyPath r3)) of
                    (ev2, Some e) \<Rightarrow> (ev1 @ ev2, cfg2, Some e)
                  | (ev2, None) \<Rightarrow>
                      let cfg3 = cfg2\<lparr>Lnd := (Lnd cfg2)\<lparr>LogWriter := RotatingLogWriter\<rparr>\<rparr> in
                      (case InitLogRotator w
                              (Join [LitLogDir r3, network cfg3, defaultLogFilename])
                              (LitMaxLogFileSize r3) (LitMaxLogFiles r3) of
                         Some err \<Rightarrow> (ev1 @ ev2, cfg3, Some (LogRotationFailed err))
                       | None \<Rightarrow>
                           (ev1 @ ev2, cfg3,
                            map_option ExternalError
                              (ParseAndSetDebugLevels w (LitDebugLevel (Remote cfg3))))))))"

section \<open>\<open>loadConfigFile\<close>\<close>

text \<open>
  \<open>cfg\<close> is the pointer \<open>preCfg\<close>: the ini parser and the second run of the flag
  parser write into the same struct. \<open>litDir\<close> is computed before either runs. The
  warning about the config file is the last thing the function does.
\<close>

text \<open>The path of the config file: the configured one, or the file in the LiT
  directory when that directory is not the default and the path is.\<close>

definition configFilePath :: "world \<Rightarrow> Config \<Rightarrow> string" where
  "configFilePath w preCfg =
     (let litDir = CleanAndExpandPath w (LitDir preCfg);
          path = CleanAndExpandPath w (ConfigFile preCfg)
      in if litDir \<noteq> defaultLitDir w \<and> path = defaultConfigFile w
         then Join [litDir, defaultConfigFilename] else path)"

definition loadConfigFile :: "world \<Rightarrow> Config \<Rightarrow> string \<Rightarrow> event list \<times> (error + Config)" where
  "loadConfigFile w preCfg usageMessage =
     (let litDir = CleanAndExpandPath w (LitDir preCfg)
      in
        (case IniParse w (configFilePath w preCfg) preCfg of
           (cfgI, Some (IniError err)) \<Rightarrow> ([], Inl (ExternalError err))
         | (cfgI, iniResult) \<Rightarrow>
             let configFileError =
                   (case iniResult of Some (IniOtherError err) \<Rightarrow> Some err | _ \<Rightarrow> None)
             in
               (case flagsParse w cfgI of
                  Inl err \<Rightarrow> ([], Inl (ExternalError err))
                | Inr cfg \<Rightarrow>
                    (case makeDirectories w litDir of
                       (ev1, Some e) \<Rightarrow> (ev1, Inl e)
                     | (ev1, None) \<Rightarrow>
                         (case
                            (if LndMode cfg = ModeIntegrated then
                               (case lndValidateConfig w (Lnd cfg) usageMessage of
                                  Inl err \<Rightarrow> ([], Inl (ExternalError err))
                                | Inr lndCfg \<Rightarrow>
                                    (case getNetwork (Bitcoin lndCfg) of
                                       Inl e \<Rightarrow> ([], Inl e)
                                     | Inr n \<Rightarrow> ([], Inr (cfg\<lparr>Lnd := lndCfg, network := n\<rparr>))))
                             else if LndMode cfg = ModeRemote then
                               (case validateRemoteModeConfig w cfg of
                                  (ev2, cfg', Some e) \<Rightarrow> (ev2, Inl e)
                                | (ev2, cfg', None) \<Rightarrow> (ev2, Inr cfg'))
                             else ([], Inl (InvalidMode (LndMode cfg))))
                          of
                            (ev2, Inl e) \<Rightarrow> (ev1 @ ev2, Inl e)
                          | (ev2, Inr cfg') \<Rightarrow>
                              (ev1 @ ev2 @
                                 (case configFileError of
                                    Some err \<Rightarrow> [LogWarn err]
                                  | None \<Rightarrow> []),
                               Inr cfg'))))))"

section \<open>\<open>loadAndValidateConfig\<close>\<close>

text \<open>
  After \<open>loadConfigFile\<close> the pointers \<open>preCfg\<close> and \<open>cfg\<close> are the same struct, so
  \<open>preCfg.LitDir\<close> is read from the loaded configuration. Hooking up the loggers
  (\<open>SetupLoggers\<close>) writes nothing and is left out.
\<close>

text \<open>The name of the program and the usage message made of it.\<close>

definition appName :: "world \<Rightarrow> string" where
  "appName w = TrimSuffix (Base (osArgs0 w)) (Ext (Base (osArgs0 w)))"

definition usageMessage :: "world \<Rightarrow> string" where
  "usageMessage w = ''Use '' @ appName w @ '' -h to show usage''"

text \<open>The first step after \<open>loadConfigFile\<close>: the directory of Let's Encrypt is
  cleaned and, when it is the default one, moved below a LiT directory that is not the
  default.\<close>

definition resolveLetsEncryptDir :: "world \<Rightarrow> Config \<Rightarrow> Config" where
  "resolveLetsEncryptDir w cfg =
     (let litDir = CleanAndExpandPath w (LitDir cfg);
          leDir = CleanAndExpandPath w (LetsEncryptDir cfg)
      in cfg\<lparr>LetsEncryptDir :=
               (if litDir \<noteq> defaultLitDir w \<and> leDir = defaultLetsEncryptDir w
                then Join [litDir, defaultLetsEncryptSubDir] else leDir)\<rparr>)"

definition loadAndValidateConfig :: "world \<Rightarrow> event list \<times> (error + Config) outcome" where
  "loadAndValidateConfig w =
     (case flagsParse w (defaultConfig w) of
        Inl err \<Rightarrow> ([], Returns (Inl (FlagsParseError err)))
      | Inr preCfg \<Rightarrow>
            if ShowVersion (Lnd preCfg) then
              ([Stdout (appName w @ '' version '' @ buildVersion w @ '' commit='' @ buildCommit w)],
               Exits 0)
            else
              (case loadConfigFile w preCfg (usageMessage w) of
                 (ev1, Inl e) \<Rightarrow> (ev1, Returns (Inl e))
               | (ev1, Inr cfgL) \<Rightarrow>
                   let cfg1 = resolveLetsEncryptDir w cfgL
                   in
                     if LetsEncrypt cfg1 \<and> LetsEncryptHost cfg1 = [] then
                       (ev1, Returns (Inl MissingACMEHost))
                     else
                       (case (if LetsEncrypt cfg1 then makeDirectories w (LetsEncryptDir cfg1)
                              else ([], None)) of
                          (ev2, Some e) \<Rightarrow> (ev1 @ ev2, Returns (Inl e))
                        | (ev2, None) \<Rightarrow>
                            (case readUIPassword w cfg1 of
                               Inl e \<Rightarrow> (ev1 @ ev2, Returns (Inl (PasswordReadFailed e)))
                             | Inr cfg2 \<Rightarrow>
                                 if length (UIPassword cfg2) < uiPasswordMinLength then
                                   (ev1 @ ev2, Returns (Inl CredentialTooWeak))
                                 else if 1 < length (RPCListeners (Lnd cfg2)) then
                                   (ev1 @ ev2, Returns (Inl TooManyListeners))
                                 else
                                   (case loopdValidate w ((Loop cfg2)\<lparr>LoopNetwork := network cfg2\<rparr>) of
                                      Inl err \<Rightarrow> (ev1 @ ev2, Returns (Inl (ExternalError err)))
                                    | Inr loopCfg \<Rightarrow>
                                   (case poolValidate w ((Pool cfg2)\<lparr>PoolNetwork := network cfg2\<rparr>) of
                                      Inl err \<Rightarrow> (ev1 @ ev2, Returns (Inl (ExternalError err)))
                                    | Inr poolCfg \<Rightarrow>
                                   (case faradayValidateConfig w
                                           ((Faraday cfg2)\<lparr>FaradayNetwork := network cfg2\<rparr>) of
                                      Inl err \<Rightarrow> (ev1 @ ev2, Returns (Inl (ExternalError err)))
                                    | Inr frdCfg \<Rightarrow>
                                        let rpc = (faradayRpcConfig cfg2)
                                                    \<lparr>RpcFaradayDir := FaradayDir frdCfg,
                                                     RpcMacaroonPath := FaradayMacaroonPath frdCfg\<rparr>;
                                            cfg3 = cfg2\<lparr>Loop := loopCfg, Pool := poolCfg,
                                                        Faraday := frdCfg, faradayRpcConfig := rpc\<rparr>
                                        in
                                          if ChainConn frdCfg then
                                            (case NewBitcoinClient w (FaradayBitcoin frdCfg) of
                                               Inl err \<Rightarrow>
                                                 (ev1 @ ev2, Returns (Inl (ExternalError err)))
                                             | Inr client \<Rightarrow>
                                                 (ev1 @ ev2,
                                                  Returns (Inr (cfg3\<lparr>faradayRpcConfig :=
                                                    rpc\<lparr>BitcoinClient := Some client\<rparr>\<rparr>))))
                                          else (ev1 @ ev2, Returns (Inr cfg3)))))))))"

section \<open>\<open>buildTLSConfigForHttp2\<close>\<close>

text \<open>
  The function works on the file system, so the model returns the files as they are
  when it returns, next to its result. With Let's Encrypt the certificate is fetched by
  the ACME manager at the first handshake, and the challenge responder runs in a
  goroutine of its own: neither is part of the call.
\<close>

definition http2PostProcess :: "world \<Rightarrow> TLSConfig \<Rightarrow> error + TLSConfig" where
  "http2PostProcess w tlsConfig =
     (case TlsConfigWithHttp2Enabled w
             (tlsConfig\<lparr>CipherSuites :=
                CipherSuites tlsConfig @ [TLS_ECDHE_RSA_WITH_AES_128_GCM_SHA256]\<rparr>) of
        Inl err \<Rightarrow> Inl (H2SetupFailed err)
      | Inr c \<Rightarrow> Inr c)"

definition buildTLSConfigForHttp2 :: "world \<Rightarrow> Config \<Rightarrow> fs \<times> (error + TLSConfig)" where
  "buildTLSConfigForHttp2 w config =
     (if LetsEncrypt config then
        (if LetsEncryptHost config = [] then (files w, Inl MissingACMEHost)
         else
           (files w,
            http2PostProcess w
              \<lparr>Certificates = [], CipherSuites = [],
               GetCertificate = Some (LetsEncryptHost config), NextProtos = []\<rparr>))
      else if LndMode config = ModeRemote then
        let tlsCertPath = LitTLSCertPath (Remote config);
            tlsKeyPath = LitTLSKeyPath (Remote config);
            generated =
              (if \<not> FileExists (files w) tlsCertPath \<and> \<not> FileExists (files w) tlsKeyPath
               then GenCertPair w (files w) defaultSelfSignedCertOrganization tlsCertPath tlsKeyPath
               else (files w, None))
        in
          (case generated of
             (f, Some err) \<Rightarrow> (f, Inl (CertGenerationFailed err))
           | (f, None) \<Rightarrow>
               (case LoadCert w f tlsCertPath tlsKeyPath of
                  Inl err \<Rightarrow> (f, Inl (CertLoadFailed err))
                | Inr tlsCert \<Rightarrow> (f, http2PostProcess w (TLSConfFromCert w tlsCert))))
      else
        (case LoadCert w (files w) (LndTLSCertPath (Lnd config)) (LndTLSKeyPath (Lnd config)) of
           Inl err \<Rightarrow> (files w, Inl (CertLoadFailed err))
         | Inr tlsCert \<Rightarrow> (files w, http2PostProcess w (TLSConfFromCert w tlsCert))))"

section \<open>\<open>onDemandListener\<close>\<close>

text \<open>
  \<open>lis\<close> is \<open>nil\<close> until \<open>Accept\<close> has bound the address; a bound listener is the
  handle that \<open>net.Listen\<close> returned. \<open>Accept\<close> stores what \<open>net.Listen\<close> returns,
  which is \<open>nil\<close> when it fails. A method call on the \<open>nil\<close> listener panics.
\<close>

record onDemandListener =
  addr :: Addr
  lis :: "nat option"

definition parseNetwork :: "Addr \<Rightarrow> string" where
  "parseNetwork a =
     (case a of
        TCPAddr is4 s \<Rightarrow> if is4 then ''tcp4'' else ''tcp6''
      | NetAddr n s \<Rightarrow> n)"

definition Accept :: "world \<Rightarrow> onDemandListener \<Rightarrow> onDemandListener \<times> (string + nat)" where
  "Accept w l =
     (case lis l of
        None \<Rightarrow>
          (case netListen w (parseNetwork (addr l)) (addrString (addr l)) of
             Inl err \<Rightarrow> (l\<lparr>lis := None\<rparr>, Inl err)
           | Inr h \<Rightarrow> (l\<lparr>lis := Some h\<rparr>, lisAccept w h))
      | Some h \<Rightarrow> (l, lisAccept w h))"

definition Close :: "world \<Rightarrow> onDemandListener \<Rightarrow> (string option) outcome" where
  "Close w l =
     (case lis l of
        None \<Rightarrow> Panics ''invalid memory address or nil pointer dereference''
      | Some h \<Rightarrow> Returns (lisClose w h))"

definition ListenerAddr :: "onDemandListener \<Rightarrow> Addr" where
  "ListenerAddr l = addr l"

section \<open>An example deployment\<close>

text \<open>
  A concrete world to run the functions in: a Unix user \<open>lit\<close>, no config file, no
  command-line flags, an empty file system and environment, collaborators that
  succeed. The examples below change it where they need to.
\<close>

definition exampleLnd :: LndConfig where
  "exampleLnd =
     \<lparr>ShowVersion = False,
      RPCListeners = [TCPAddr True ''0.0.0.0:10009''],
      LndTLSCertPath = ''/home/lit/.lnd/tls.cert'',
      LndTLSKeyPath = ''/home/lit/.lnd/tls.key'',
      AdminMacPath = ''/home/lit/.lnd/data/chain/bitcoin/mainnet/admin.macaroon'',
      DataDir = ''/home/lit/.lnd/data'',
      Bitcoin = \<lparr>MainNet = True, TestNet3 = False, RegTest = False, SimNet = False\<rparr>,
      LogWriter = LndLogWriter\<rparr>"

definition exampleWorld :: world where
  "exampleWorld =
     \<lparr>defaultLitDir = ''/home/lit/.lit'',
      lndDefaultConfig = exampleLnd,
      faradayDefaultConfig =
        \<lparr>FaradayNetwork = ''mainnet'', FaradayDir = ''/home/lit/.faraday'',
         FaradayMacaroonPath = ''/home/lit/.faraday/mainnet/faraday.macaroon'',
         ChainConn = False, FaradayBitcoin = []\<rparr>,
      loopDefaultConfig = \<lparr>LoopNetwork = ''mainnet''\<rparr>,
      poolDefaultConfig = \<lparr>PoolNetwork = ''mainnet''\<rparr>,
      osArgs0 = ''/usr/local/bin/litd'',
      buildVersion = ''0.0.0'',
      buildCommit = [],
      flagsParse = (\<lambda>cfg. Inr cfg),
      IniParse = (\<lambda>path cfg. (cfg, Some (IniOtherError ''no such file or directory''))),
      CleanAndExpandPath = Clean,
      MkdirAll = (\<lambda>dir. None),
      Readlink = (\<lambda>name. None),
      files = Map.empty,
      environ = Map.empty,
      lndValidateConfig = (\<lambda>cfg usage. Inr cfg),
      loopdValidate = (\<lambda>cfg. Inr cfg),
      poolValidate = (\<lambda>cfg. Inr cfg),
      faradayValidateConfig = (\<lambda>cfg. Inr cfg),
      NewBitcoinClient = (\<lambda>cfg. Inr cfg),
      InitLogRotator = (\<lambda>file size n. None),
      ParseAndSetDebugLevels = (\<lambda>level. None),
      GenCertPair = (\<lambda>f org certPath keyPath.
        (f(certPath \<mapsto> ''generated cert'', keyPath \<mapsto> ''generated key''), None)),
      X509KeyPair = (\<lambda>certBytes keyBytes. Inr (Certificate certBytes keyBytes)),
      lndCipherSuites = [0x1301, 0x1303, 0xc02b, 0xc02c, 0xcca8, 0xcca9],
      TlsConfigWithHttp2Enabled = (\<lambda>c. Inr (c\<lparr>NextProtos := ''h2'' # NextProtos c\<rparr>)),
      netListen = (\<lambda>net address. Inr 3),
      lisAccept = (\<lambda>h. Inr 4),
      lisClose = (\<lambda>h. None)\<rparr>"

text \<open>A command line that selects the mode, gives a password, and sets both the
  macaroon directory and the macaroon path of the remote lnd.\<close>

definition conflictingFlags :: "string \<Rightarrow> Config \<Rightarrow> Config" where
  "conflictingFlags mode cfg =
     cfg\<lparr>LndMode := mode, UIPassword := ''hunter2hunter2'',
         Remote := (Remote cfg)\<lparr>RemoteLnd := (RemoteLnd (Remote cfg))
           \<lparr>MacaroonDir := ''/home/lit/macaroons'',
            MacaroonPath := ''/home/lit/macaroons/lit.macaroon''\<rparr>\<rparr>\<rparr>"

definition conflictWorld :: "string \<Rightarrow> world" where
  "conflictWorld mode = exampleWorld\<lparr>flagsParse := (\<lambda>cfg. Inr (conflictingFlags mode cfg))\<rparr>"

text \<open>What resolution returns for that command line in integrated mode.\<close>

definition integratedConflictResult :: Config where
  "integratedConflictResult =
     (conflictingFlags ModeIntegrated (defaultConfig exampleWorld))
       \<lparr>network := ''mainnet'',
        faradayRpcConfig :=
          \<lparr>RpcFaradayDir = ''/home/lit/.faraday'',
           RpcMacaroonPath = ''/home/lit/.faraday/mainnet/faraday.macaroon'',
           BitcoinClient = None\<rparr>\<rparr>"

text \<open>A command line that gives the password only, and the configuration that
  \<open>loadConfigFile\<close> returns for it.\<close>

definition passwordWorld :: "string \<Rightarrow> world" where
  "passwordWorld pw = exampleWorld\<lparr>flagsParse := (\<lambda>cfg. Inr (cfg\<lparr>UIPassword := pw\<rparr>))\<rparr>"

definition remoteResolved :: "string \<Rightarrow> Config" where
  "remoteResolved pw =
     (defaultConfig exampleWorld)
       \<lparr>UIPassword := pw, network := ''mainnet'',
        Lnd := exampleLnd\<lparr>LogWriter := RotatingLogWriter\<rparr>\<rparr>"

text \<open>The default configuration on testnet, and the same with another data directory
  for lnd (\<open>--lnd.datadir\<close>); a certificate that the operator put in place, without
  its key; a listener that has not been bound.\<close>

definition testnetConfig :: Config where
  "testnetConfig =
     (defaultConfig exampleWorld)
       \<lparr>Remote := (Remote (defaultConfig exampleWorld))
          \<lparr>RemoteLnd := (RemoteLnd (Remote (defaultConfig exampleWorld)))\<lparr>Network := ''testnet''\<rparr>\<rparr>\<rparr>"

definition customDataDirConfig :: Config where
  "customDataDirConfig =
     testnetConfig\<lparr>Lnd := (Lnd testnetConfig)\<lparr>DataDir := ''/home/lit/custom-lnd''\<rparr>\<rparr>"

definition operatorCertWorld :: world where
  "operatorCertWorld = exampleWorld\<lparr>files := [''/home/lit/.lit/tls.cert'' \<mapsto> ''operator cert'']\<rparr>"

definition exampleListener :: onDemandListener where
  "exampleListener = \<lparr>addr = TCPAddr True ''127.0.0.1:8443'', lis = None\<rparr>"

text \<open>A password file and an environment variable with the given contents, and a
  configuration with the three password options.\<close>

definition credentialWorld :: "string \<Rightarrow> string \<Rightarrow> world" where
  "credentialWorld fileContent envValue =
     exampleWorld\<lparr>files := [''/home/lit/ui.pw'' \<mapsto> fileContent],
                  environ := [''LIT_UI_PASSWORD'' \<mapsto> envValue]\<rparr>"

definition credentialConfig :: "string \<Rightarrow> string \<Rightarrow> string \<Rightarrow> Config" where
  "credentialConfig direct file env =
     (defaultConfig exampleWorld)
       \<lparr>UIPassword := direct, UIPasswordFile := file, UIPasswordEnv := env\<rparr>"

section \<open>Credential resolution as the specification words it\<close>

text \<open>
  In the words of the specification every source has a value, the first source whose
  value is not blank after trimming wins, and the credential is that value, trimmed.
  The value of a source is what its option says (the direct value, the name of the
  file, the name of the variable) or what the source holds (the direct value, the
  content of the file, the value of the variable; nothing, where the file cannot be
  read or the variable is not set). Both readings are written down.
\<close>

definition firstNonBlank :: "string list \<Rightarrow> string option" where
  "firstNonBlank values =
     (case filter (\<lambda>v. TrimSpace v \<noteq> []) values of
        [] \<Rightarrow> None
      | v # _ \<Rightarrow> Some (TrimSpace v))"

definition sourceOptions :: "Config \<Rightarrow> string list" where
  "sourceOptions cfg = [UIPassword cfg, UIPasswordFile cfg, UIPasswordEnv cfg]"

definition sourceContents :: "world \<Rightarrow> Config \<Rightarrow> string list" where
  "sourceContents w cfg =
     [UIPassword cfg,
      (case ReadFile w (TrimSpace (UIPasswordFile cfg)) of Inl err \<Rightarrow> [] | Inr content \<Rightarrow> content),
      Getenv w (TrimSpace (UIPasswordEnv cfg))]"

section \<open>The length of a credential as the specification words it\<close>

text \<open>
  The specification counts the characters of the credential. The characters of a UTF-8
  string are its code points: the bytes that are not continuation bytes (\<open>0x80\<close> to
  \<open>0xBF\<close>). Go's \<open>len\<close>, which the code uses, counts the bytes.
\<close>

definition characters :: "string \<Rightarrow> nat" where
  "characters s =
     length (filter (\<lambda>c. (of_char c :: nat) < 0x80 \<or> 0xBF < (of_char c :: nat)) s)"

text \<open>A password of seven characters, the second of which takes two bytes (a with
  diaeresis), and what resolution returns for a password given on the command line.\<close>

definition umlautPassword :: string where
  "umlautPassword = ''p'' @ [CHR 0xC3, CHR 0xA4] @ ''sswrd''"

definition resolvedWith :: "string \<Rightarrow> Config" where
  "resolvedWith pw =
     (remoteResolved pw)
       \<lparr>faradayRpcConfig :=
          \<lparr>RpcFaradayDir = ''/home/lit/.faraday'',
           RpcMacaroonPath = ''/home/lit/.faraday/mainnet/faraday.macaroon'',
           BitcoinClient = None\<rparr>\<rparr>"

section \<open>Unfolding the definitions on concrete inputs\<close>

lemmas path_defs = Join_def Clean_def cleanStep_def Dir_def Base_def Ext_def TrimSuffix_def
  HasSuffix_def

lemmas trim_defs = TrimSpace_def spaceRunes_def asciiSpace_def leadingRune_def

lemmas default_defs = defaultConfig_def defaultTLSCertPath_def defaultTLSKeyPath_def
  defaultConfigFile_def defaultLogDir_def defaultLetsEncryptDir_def defaultRemoteLndMacDir_def

lemmas run_defs = loadAndValidateConfig_def loadConfigFile_def validateRemoteModeConfig_def
  makeDirectories_def readUIPassword_def getNetwork_def resolveLetsEncryptDir_def
  usageMessage_def appName_def configFilePath_def ChainParamsOk_def ReadFile_def Getenv_def

lemmas example_defs = exampleWorld_def exampleLnd_def

section \<open>Paths and strings\<close>

lemma characters_le: "characters s \<le> length s"
  by (simp add: characters_def)

lemma splitSlash_ne: "splitSlash s \<noteq> []"
  by (induction s) (auto split: list.splits)

lemma splitSlash_append:
  "splitSlash (a @ CHR ''/'' # b) = splitSlash a @ splitSlash b"
  by (induction a) (auto simp: splitSlash_ne split: list.splits)

lemma joinSlash_snoc_ne: "n \<noteq> [] \<Longrightarrow> joinSlash (xs @ [n]) \<noteq> []"
  by (induction xs rule: joinSlash.induct) auto

lemma splitSlash_plain: "CHR ''/'' \<notin> set n \<Longrightarrow> splitSlash n = [n]"
  by (induction n) auto

lemma joinSlash_snoc: "xs \<noteq> [] \<Longrightarrow> joinSlash (xs @ [c]) = joinSlash xs @ CHR ''/'' # c"
  by (induction xs rule: joinSlash.induct) auto

lemma Base_plain:
  assumes "n \<noteq> []" and "CHR ''/'' \<notin> set n"
  shows "Base n = n"
proof -
  have d: "dropWhile (\<lambda>c. c = CHR ''/'') (rev n) = rev n"
    using assms by (cases "rev n") auto
  have t: "takeWhile (\<lambda>c. c \<noteq> CHR ''/'') (rev n) = rev n"
    using assms by (auto intro: takeWhile_eq_all_conv [THEN iffD2])
  show ?thesis using assms by (simp add: Base_def d t)
qed

lemma Base_snoc:
  assumes "n \<noteq> []" and "CHR ''/'' \<notin> set n"
  shows "Base (x @ CHR ''/'' # n) = n"
proof -
  have d: "dropWhile (\<lambda>c. c = CHR ''/'') (rev n @ CHR ''/'' # rev x) = rev n @ CHR ''/'' # rev x"
    using assms by (cases "rev n") auto
  have "takeWhile (\<lambda>c. c \<noteq> CHR ''/'') (rev n) = rev n"
    using assms by (auto intro: takeWhile_eq_all_conv [THEN iffD2])
  then have t: "takeWhile (\<lambda>c. c \<noteq> CHR ''/'') (rev n @ CHR ''/'' # rev x) = rev n"
    by (simp add: takeWhile_tail)
  show ?thesis using assms by (simp add: Base_def d t)
qed

lemma Clean_plain:
  assumes "n \<noteq> []" and "CHR ''/'' \<notin> set n" and "n \<noteq> ''.''" and "n \<noteq> ''..''"
  shows "Clean n = n"
proof -
  have "hd n \<noteq> CHR ''/''" using assms by (cases n) auto
  then show ?thesis using assms by (simp add: Clean_def splitSlash_plain cleanStep_def)
qed

lemma Base_Clean_snoc:
  assumes "n \<noteq> []" and "CHR ''/'' \<notin> set n" and "n \<noteq> ''.''" and "n \<noteq> ''..''" and "p \<noteq> []"
  shows "Base (Clean (p @ CHR ''/'' # n)) = n"
proof -
  define rooted where "rooted = (hd p = CHR ''/'')"
  define st where "st = foldl (cleanStep rooted) [] (splitSlash p)"
  have f: "foldl (cleanStep rooted) [] (splitSlash (p @ CHR ''/'' # n)) = n # st"
    using assms by (simp add: splitSlash_append splitSlash_plain st_def cleanStep_def)
  have h: "hd (p @ CHR ''/'' # n) = hd p" using assms by simp
  have c: "Clean (p @ CHR ''/'' # n) =
             (if rooted then ''/'' else []) @ joinSlash (rev st @ [n])"
    using assms by (simp add: Clean_def Let_def h f rooted_def [symmetric] joinSlash_snoc_ne)
  show ?thesis
  proof (cases "st = []")
    case True
    with c assms show ?thesis
      using Base_snoc [of n "[]"] by (auto simp: Base_plain)
  next
    case False
    then have "joinSlash (rev st @ [n]) = joinSlash (rev st) @ CHR ''/'' # n"
      by (simp add: joinSlash_snoc)
    with c have "Clean (p @ CHR ''/'' # n) =
        ((if rooted then ''/'' else []) @ joinSlash (rev st)) @ CHR ''/'' # n"
      by simp
    then show ?thesis by (metis Base_snoc assms(1,2))
  qed
qed

lemma Base_Join_snoc:
  assumes "n \<noteq> []" and "CHR ''/'' \<notin> set n" and "n \<noteq> ''.''" and "n \<noteq> ''..''"
  shows "Base (Join (es @ [n])) = n"
proof (cases "dropWhile (\<lambda>e. e = []) es")
  case Nil
  then have "dropWhile (\<lambda>e. e = []) (es @ [n]) = [n]"
    using assms by (simp add: dropWhile_append)
  then show ?thesis using assms by (simp add: Join_def Clean_plain Base_plain)
next
  case (Cons e es')
  then have ne: "e \<noteq> []" using hd_dropWhile [of "\<lambda>e. e = []" es] by auto
  have "dropWhile (\<lambda>e. e = []) es \<noteq> []" using Cons by simp
  then obtain x where "x \<in> set es" and "x \<noteq> []"
    by (auto simp: dropWhile_eq_Nil_conv)
  then have "dropWhile (\<lambda>e. e = []) (es @ [n]) = dropWhile (\<lambda>e. e = []) es @ [n]"
    by (rule dropWhile_append1)
  then have "dropWhile (\<lambda>e. e = []) (es @ [n]) = e # es' @ [n]"
    using Cons by simp
  moreover have "joinSlash (e # es' @ [n]) = joinSlash (e # es') @ CHR ''/'' # n"
    using joinSlash_snoc [of "e # es'" n] by simp
  moreover have "joinSlash (e # es') \<noteq> []"
    using ne by (cases es') auto
  ultimately show ?thesis
    using assms by (simp add: Join_def Base_Clean_snoc)
qed

section \<open>Directories, remote mode, and the events of a run\<close>

lemma makeDirectories_ok: "MkdirAll w d = None \<Longrightarrow> makeDirectories w d = ([], None)"
  by (simp add: makeDirectories_def)

lemma makeDirectories_None: "makeDirectories w d = (ev, None) \<Longrightarrow> ev = []"
  by (auto simp: makeDirectories_def Let_def split: option.splits)

lemma makeDirectories_None_MkdirAll: "makeDirectories w d = (ev, None) \<Longrightarrow> MkdirAll w d = None"
  by (auto simp: makeDirectories_def Let_def split: option.splits)

lemma makeDirectories_noWarn: "makeDirectories w d = (ev, r) \<Longrightarrow> LogWarn m \<notin> set ev"
  by (auto simp: makeDirectories_def Let_def split: option.splits)

lemma makeDirectories_error:
  "makeDirectories w d = (ev, Some e) \<Longrightarrow> \<exists>reason. e = DirectoryCreateFailed d reason"
  by (auto simp: makeDirectories_def Let_def split: option.splits)

lemma validateRemote_conflict:
  assumes "ChainParamsOk (Network (RemoteLnd (Remote cfg)))"
    and "MacaroonDir (RemoteLnd (Remote cfg)) \<noteq> defaultRemoteLndMacDir w"
    and "MacaroonPath (RemoteLnd (Remote cfg)) \<noteq> []"
  shows "validateRemoteModeConfig w cfg =
           ([], cfg\<lparr>network := Network (RemoteLnd (Remote cfg))\<rparr>, Some ConflictingMacaroonConfig)"
  using assms by (simp add: validateRemoteModeConfig_def Let_def)

lemma validateRemote_None:
  assumes "validateRemoteModeConfig w cfg = (ev, cfg', None)"
  shows "ev = []"
  using assms
  by (auto simp: validateRemoteModeConfig_def Let_def
      split: if_splits prod.splits option.splits dest: makeDirectories_None)

lemma validateRemote_noWarn:
  assumes "validateRemoteModeConfig w cfg = (ev, cfg', r)"
  shows "LogWarn m \<notin> set ev"
  using assms
  by (auto simp: validateRemoteModeConfig_def Let_def
      split: if_splits prod.splits option.splits dest: makeDirectories_noWarn)

lemma loadConfigFile_warn:
  assumes "loadConfigFile w preCfg u = (ev, r)" and "LogWarn m \<in> set ev"
  shows "\<exists>cfgI cfg cfgL.
           IniParse w (configFilePath w preCfg) preCfg = (cfgI, Some (IniOtherError m)) \<and>
           flagsParse w cfgI = Inr cfg \<and>
           MkdirAll w (CleanAndExpandPath w (LitDir preCfg)) = None \<and>
           (LndMode cfg = ModeIntegrated \<and>
              (\<exists>lndCfg n. lndValidateConfig w (Lnd cfg) u = Inr lndCfg \<and>
                 getNetwork (Bitcoin lndCfg) = Inr n \<and>
                 cfgL = cfg\<lparr>Lnd := lndCfg, network := n\<rparr>) \<or>
            LndMode cfg = ModeRemote \<and> validateRemoteModeConfig w cfg = ([], cfgL, None)) \<and>
           r = Inr cfgL \<and> ev = [LogWarn m]"
  using assms
  by (auto simp: loadConfigFile_def Let_def
      split: if_splits prod.splits option.splits sum.splits ini_error.splits
      dest: makeDirectories_noWarn makeDirectories_None validateRemote_None validateRemote_noWarn
        makeDirectories_None_MkdirAll)

lemma loadConfigFile_conflict:
  assumes "IniParse w (configFilePath w preCfg) preCfg = (cfgI, ie)"
    and "ie = None \<or> ie = Some (IniOtherError m)"
    and "flagsParse w cfgI = Inr cfg"
    and "MkdirAll w (CleanAndExpandPath w (LitDir preCfg)) = None"
    and "LndMode cfg = ModeRemote"
    and "ChainParamsOk (Network (RemoteLnd (Remote cfg)))"
    and "MacaroonDir (RemoteLnd (Remote cfg)) \<noteq> defaultRemoteLndMacDir w"
    and "MacaroonPath (RemoteLnd (Remote cfg)) \<noteq> []"
  shows "loadConfigFile w preCfg u = ([], Inl ConflictingMacaroonConfig)"
  using assms
  by (auto simp: loadConfigFile_def Let_def makeDirectories_ok validateRemote_conflict)

lemma validateRemote_conflict_only:
  assumes "validateRemoteModeConfig w cfg = (ev, cfg', Some ConflictingMacaroonConfig)"
  shows "MacaroonDir (RemoteLnd (Remote cfg)) \<noteq> defaultRemoteLndMacDir w \<and>
         MacaroonPath (RemoteLnd (Remote cfg)) \<noteq> []"
  using assms
  by (auto simp: validateRemoteModeConfig_def Let_def
      split: if_splits prod.splits option.splits dest: makeDirectories_error)

lemma loadConfigFile_conflict_only:
  assumes "loadConfigFile w preCfg u = (ev, Inl ConflictingMacaroonConfig)"
    and "IniParse w (configFilePath w preCfg) preCfg = (cfgI, ie)"
    and "flagsParse w cfgI = Inr cfg"
  shows "LndMode cfg = ModeRemote"
  using assms
  by (auto simp: loadConfigFile_def Let_def getNetwork_def
      split: if_splits prod.splits option.splits sum.splits ini_error.splits
      dest: makeDirectories_error)

lemma loadAndValidate_conflict_from_load:
  assumes "snd (loadAndValidateConfig w) = Returns (Inl ConflictingMacaroonConfig)"
    and "flagsParse w (defaultConfig w) = Inr preCfg"
  shows "\<exists>ev. loadConfigFile w preCfg (usageMessage w) = (ev, Inl ConflictingMacaroonConfig)"
  using assms
  by (auto simp: loadAndValidateConfig_def Let_def
      split: if_splits prod.splits option.splits sum.splits
      dest: makeDirectories_error)

lemma validateRemote_macaroonDir:
  assumes "ChainParamsOk (Network (RemoteLnd (Remote cfg)))"
    and "MacaroonDir (RemoteLnd (Remote cfg)) = defaultRemoteLndMacDir w"
    and "validateRemoteModeConfig w cfg = (ev, cfg', r)"
  shows "MacaroonDir (RemoteLnd (Remote cfg')) =
           (if Network (RemoteLnd (Remote cfg)) = defaultNetwork
            then MacaroonDir (RemoteLnd (Remote cfg))
            else Join [DataDir (Lnd cfg), defaultLndChainSubDir, defaultLndChain,
                       Network (RemoteLnd (Remote cfg))])"
  using assms
  by (auto simp: validateRemoteModeConfig_def Let_def
      split: if_splits prod.splits option.splits)

lemma resolveLE_simps [simp]:
  "LetsEncrypt (resolveLetsEncryptDir w c) = LetsEncrypt c"
  "LetsEncryptHost (resolveLetsEncryptDir w c) = LetsEncryptHost c"
  by (simp_all add: resolveLetsEncryptDir_def Let_def)

lemma loadAndValidate_events:
  assumes "flagsParse w (defaultConfig w) = Inr preCfg"
    and "\<not> ShowVersion (Lnd preCfg)"
    and "loadConfigFile w preCfg (usageMessage w) = (ev1, r)"
  shows "\<exists>ev2. fst (loadAndValidateConfig w) = ev1 @ ev2 \<and> (\<forall>m. LogWarn m \<notin> set ev2)"
  using assms
  by (auto simp: loadAndValidateConfig_def Let_def
      split: if_splits prod.splits option.splits sum.splits
      dest: makeDirectories_noWarn)

section \<open>The macaroon path and the macaroon directory (C1)\<close>

text \<open>
  C1 says that a configuration with a macaroon path and a macaroon directory other than
  the default fails with \<open>ConflictingMacaroonConfig\<close> in every mode. In integrated
  mode it does not: with the command line \<open>conflictingFlags ModeIntegrated\<close> resolution
  succeeds, and the configuration it returns has both settings.
\<close>

theorem conflicting_macaroon_counterexample:
  "loadAndValidateConfig (conflictWorld ModeIntegrated) =
     ([LogWarn ''no such file or directory''], Returns (Inr integratedConflictResult)) \<and>
   LndMode integratedConflictResult = ModeIntegrated \<and>
   MacaroonPath (RemoteLnd (Remote integratedConflictResult)) \<noteq> [] \<and>
   MacaroonDir (RemoteLnd (Remote integratedConflictResult)) \<noteq>
     defaultRemoteLndMacDir (conflictWorld ModeIntegrated)"
  by (simp add: run_defs default_defs path_defs trim_defs example_defs conflictWorld_def
      conflictingFlags_def integratedConflictResult_def)

text \<open>
  C1, amended: the check belongs to remote mode. When both runs of the flag parser
  succeed, no version is asked for and the config file has no syntax error, then in
  remote mode, once the LiT directory exists and the remote network is one of the four
  networks, a macaroon path together with a macaroon directory other than the default
  fails with \<open>ConflictingMacaroonConfig\<close>; in every other mode resolution never fails
  with that error.
\<close>

theorem conflicting_macaroon_config:
  assumes "flagsParse w (defaultConfig w) = Inr preCfg"
    and "\<not> ShowVersion (Lnd preCfg)"
    and "IniParse w (configFilePath w preCfg) preCfg = (cfgI, ie)"
    and "ie = None \<or> ie = Some (IniOtherError m)"
    and "flagsParse w cfgI = Inr cfg"
  shows "(LndMode cfg = ModeRemote \<and>
          MkdirAll w (CleanAndExpandPath w (LitDir preCfg)) = None \<and>
          ChainParamsOk (Network (RemoteLnd (Remote cfg))) \<and>
          MacaroonDir (RemoteLnd (Remote cfg)) \<noteq> defaultRemoteLndMacDir w \<and>
          MacaroonPath (RemoteLnd (Remote cfg)) \<noteq> [] \<longrightarrow>
            loadAndValidateConfig w = ([], Returns (Inl ConflictingMacaroonConfig))) \<and>
         (LndMode cfg \<noteq> ModeRemote \<longrightarrow>
            snd (loadAndValidateConfig w) \<noteq> Returns (Inl ConflictingMacaroonConfig))"
proof (intro conjI impI)
  assume a: "LndMode cfg = ModeRemote \<and>
          MkdirAll w (CleanAndExpandPath w (LitDir preCfg)) = None \<and>
          ChainParamsOk (Network (RemoteLnd (Remote cfg))) \<and>
          MacaroonDir (RemoteLnd (Remote cfg)) \<noteq> defaultRemoteLndMacDir w \<and>
          MacaroonPath (RemoteLnd (Remote cfg)) \<noteq> []"
  then have "loadConfigFile w preCfg (usageMessage w) = ([], Inl ConflictingMacaroonConfig)"
    using assms(3-5) by (intro loadConfigFile_conflict) auto
  then show "loadAndValidateConfig w = ([], Returns (Inl ConflictingMacaroonConfig))"
    using assms(1,2) by (simp add: loadAndValidateConfig_def)
next
  assume n: "LndMode cfg \<noteq> ModeRemote"
  show "snd (loadAndValidateConfig w) \<noteq> Returns (Inl ConflictingMacaroonConfig)"
  proof
    assume "snd (loadAndValidateConfig w) = Returns (Inl ConflictingMacaroonConfig)"
    from loadAndValidate_conflict_from_load [OF this assms(1)] obtain ev
      where "loadConfigFile w preCfg (usageMessage w) = (ev, Inl ConflictingMacaroonConfig)" ..
    from loadConfigFile_conflict_only [OF this assms(3) assms(5)] n show False by simp
  qed
qed

theorem conflicting_macaroon_config_witness:
  "flagsParse (conflictWorld ModeRemote) (defaultConfig (conflictWorld ModeRemote)) =
     Inr (conflictingFlags ModeRemote (defaultConfig (conflictWorld ModeRemote))) \<and>
   LndMode (conflictingFlags ModeRemote (defaultConfig (conflictWorld ModeRemote))) = ModeRemote \<and>
   loadAndValidateConfig (conflictWorld ModeRemote) = ([], Returns (Inl ConflictingMacaroonConfig)) \<and>
   LndMode (conflictingFlags ModeIntegrated (defaultConfig (conflictWorld ModeIntegrated))) \<noteq> ModeRemote \<and>
   snd (loadAndValidateConfig (conflictWorld ModeIntegrated)) \<noteq> Returns (Inl ConflictingMacaroonConfig)"
  using
    conflicting_macaroon_config [of "conflictWorld ModeRemote"
      "conflictingFlags ModeRemote (defaultConfig (conflictWorld ModeRemote))"
      "conflictingFlags ModeRemote (defaultConfig (conflictWorld ModeRemote))"
      "Some (IniOtherError ''no such file or directory'')" "''no such file or directory''"
      "conflictingFlags ModeRemote (defaultConfig (conflictWorld ModeRemote))"]
    conflicting_macaroon_config [of "conflictWorld ModeIntegrated"
      "conflictingFlags ModeIntegrated (defaultConfig (conflictWorld ModeIntegrated))"
      "conflictingFlags ModeIntegrated (defaultConfig (conflictWorld ModeIntegrated))"
      "Some (IniOtherError ''no such file or directory'')" "''no such file or directory''"
      "conflictingFlags ModeIntegrated (defaultConfig (conflictWorld ModeIntegrated))"]
  by (simp add: default_defs path_defs example_defs conflictWorld_def conflictingFlags_def
      configFilePath_def ChainParamsOk_def)

section \<open>The priority of the credential sources (C2)\<close>

text \<open>
  C2 says that the first source whose value is not blank after trimming wins, and that
  the credential is the value of that source, trimmed; so a resolved credential is
  never empty. The code selects a source by its option and takes the credential from
  what the source holds. With a password file that is named and holds only blanks, and
  an environment variable that holds a password, the credential is empty: it is
  neither the trimmed name of the file, as the claim gives it for the values of the
  options, nor the password of the variable, as the claim gives it for what the sources
  hold.
\<close>

theorem credential_priority_counterexample:
  "firstNonBlank (sourceOptions (credentialConfig [] ''/home/lit/ui.pw'' ''LIT_UI_PASSWORD'')) =
     Some ''/home/lit/ui.pw'' \<and>
   firstNonBlank (sourceContents (credentialWorld ''  '' ''hunter2hunter2'')
     (credentialConfig [] ''/home/lit/ui.pw'' ''LIT_UI_PASSWORD'')) = Some ''hunter2hunter2'' \<and>
   readUIPassword (credentialWorld ''  '' ''hunter2hunter2'')
     (credentialConfig [] ''/home/lit/ui.pw'' ''LIT_UI_PASSWORD'') =
   Inr ((credentialConfig [] ''/home/lit/ui.pw'' ''LIT_UI_PASSWORD'')\<lparr>UIPassword := []\<rparr>)"
  by (simp add: firstNonBlank_def sourceOptions_def sourceContents_def readUIPassword_def
      ReadFile_def Getenv_def credentialWorld_def credentialConfig_def exampleWorld_def trim_defs)

text \<open>
  C2, amended: a source is set when its option is not blank after trimming. The first
  set source in the order direct value, password file, environment variable decides
  alone, in success and in failure, and sources are never combined. A set direct value
  gives the credential whatever the file and the variable are. Otherwise a set file
  gives the credential when it can be read and the error \<open>FileUnreadable\<close> when it
  cannot, whatever the variable is. Otherwise a set variable gives the credential when
  its value is not empty and the error \<open>EnvVarEmpty\<close> when it is unset or empty. With
  no source set the error is \<open>NoCredentialConfigured\<close>. The credential is the direct
  value, the content of the file or the value of the variable, trimmed.
\<close>

theorem credential_priority:
  "(TrimSpace (UIPassword cfg) \<noteq> [] \<longrightarrow>
      readUIPassword w cfg = Inr (cfg\<lparr>UIPassword := TrimSpace (UIPassword cfg)\<rparr>)) \<and>
   (TrimSpace (UIPassword cfg) = [] \<and> TrimSpace (UIPasswordFile cfg) \<noteq> [] \<and>
    files w (TrimSpace (UIPasswordFile cfg)) = Some content \<longrightarrow>
      readUIPassword w cfg = Inr (cfg\<lparr>UIPassword := TrimSpace content\<rparr>)) \<and>
   (TrimSpace (UIPassword cfg) = [] \<and> TrimSpace (UIPasswordFile cfg) \<noteq> [] \<and>
    ReadFile w (TrimSpace (UIPasswordFile cfg)) = Inl err \<longrightarrow>
      readUIPassword w cfg = Inl (FileUnreadable (UIPasswordFile cfg) err)) \<and>
   (TrimSpace (UIPassword cfg) = [] \<and> TrimSpace (UIPasswordFile cfg) = [] \<and>
    TrimSpace (UIPasswordEnv cfg) \<noteq> [] \<and>
    environ w (TrimSpace (UIPasswordEnv cfg)) = Some v \<and> v \<noteq> [] \<longrightarrow>
      readUIPassword w cfg = Inr (cfg\<lparr>UIPassword := TrimSpace v\<rparr>)) \<and>
   (TrimSpace (UIPassword cfg) = [] \<and> TrimSpace (UIPasswordFile cfg) = [] \<and>
    TrimSpace (UIPasswordEnv cfg) \<noteq> [] \<and>
    Getenv w (TrimSpace (UIPasswordEnv cfg)) = [] \<longrightarrow>
      readUIPassword w cfg = Inl (EnvVarEmpty (UIPasswordEnv cfg))) \<and>
   (TrimSpace (UIPassword cfg) = [] \<and> TrimSpace (UIPasswordFile cfg) = [] \<and>
    TrimSpace (UIPasswordEnv cfg) = [] \<longrightarrow>
      readUIPassword w cfg = Inl NoCredentialConfigured)"
  by (simp add: readUIPassword_def ReadFile_def Getenv_def)

theorem credential_priority_witness:
  "TrimSpace '' hunter2hunter2 '' \<noteq> [] \<and>
   readUIPassword (credentialWorld ''file secret'' ''env secret'')
     (credentialConfig '' hunter2hunter2 '' ''/home/lit/ui.pw'' ''LIT_UI_PASSWORD'') =
   Inr ((credentialConfig '' hunter2hunter2 '' ''/home/lit/ui.pw'' ''LIT_UI_PASSWORD'')
          \<lparr>UIPassword := ''hunter2hunter2''\<rparr>) \<and>
   TrimSpace '' '' = [] \<and> TrimSpace ''/home/lit/ui.pw'' \<noteq> [] \<and>
   readUIPassword (credentialWorld '' file secret '' ''env secret'')
     (credentialConfig '' '' ''/home/lit/ui.pw'' ''LIT_UI_PASSWORD'') =
   Inr ((credentialConfig '' '' ''/home/lit/ui.pw'' ''LIT_UI_PASSWORD'')
          \<lparr>UIPassword := ''file secret''\<rparr>) \<and>
   ReadFile (credentialWorld ''file secret'' ''env secret'') ''/home/lit/missing.pw'' =
     Inl ''no such file or directory'' \<and>
   readUIPassword (credentialWorld ''file secret'' ''env secret'')
     (credentialConfig [] ''/home/lit/missing.pw'' ''LIT_UI_PASSWORD'') =
   Inl (FileUnreadable ''/home/lit/missing.pw'' ''no such file or directory'') \<and>
   TrimSpace ''LIT_UI_PASSWORD'' \<noteq> [] \<and>
   readUIPassword (credentialWorld ''file secret'' '' env secret '')
     (credentialConfig [] [] ''LIT_UI_PASSWORD'') =
   Inr ((credentialConfig [] [] ''LIT_UI_PASSWORD'')\<lparr>UIPassword := ''env secret''\<rparr>) \<and>
   Getenv exampleWorld ''LIT_UI_PASSWORD'' = [] \<and>
   readUIPassword exampleWorld (credentialConfig [] [] ''LIT_UI_PASSWORD'') =
   Inl (EnvVarEmpty ''LIT_UI_PASSWORD'') \<and>
   readUIPassword (credentialWorld ''file secret'' ''env secret'') (credentialConfig [] [] []) =
   Inl NoCredentialConfigured"
  using
    credential_priority [where cfg = "credentialConfig '' hunter2hunter2 '' ''/home/lit/ui.pw'' ''LIT_UI_PASSWORD''"
      and w = "credentialWorld ''file secret'' ''env secret''"]
    credential_priority [where cfg = "credentialConfig '' '' ''/home/lit/ui.pw'' ''LIT_UI_PASSWORD''"
      and w = "credentialWorld '' file secret '' ''env secret''" and content = "'' file secret ''"]
    credential_priority [where cfg = "credentialConfig [] ''/home/lit/missing.pw'' ''LIT_UI_PASSWORD''"
      and w = "credentialWorld ''file secret'' ''env secret''" and err = "''no such file or directory''"]
    credential_priority [where cfg = "credentialConfig [] [] ''LIT_UI_PASSWORD''"
      and w = "credentialWorld ''file secret'' '' env secret ''" and v = "'' env secret ''"]
    credential_priority [where cfg = "credentialConfig [] [] ''LIT_UI_PASSWORD''" and w = exampleWorld]
    credential_priority [where cfg = "credentialConfig [] [] []"
      and w = "credentialWorld ''file secret'' ''env secret''"]
  by (simp add: credentialWorld_def credentialConfig_def exampleWorld_def trim_defs ReadFile_def
      Getenv_def)

section \<open>The warning about the missing config file (C3)\<close>

text \<open>
  C3 says that the warning is logged only after all other validation, the password
  checks among them, has succeeded. \<open>loadConfigFile\<close> logs it before it returns, and
  the password is checked after that: without a config file and with a password of
  seven characters the run logs the warning and then fails.
\<close>

theorem deferred_warning_counterexample:
  "loadAndValidateConfig (passwordWorld ''hunter2'') =
     ([LogWarn ''no such file or directory''], Returns (Inl CredentialTooWeak))"
  by (simp add: run_defs default_defs path_defs trim_defs example_defs passwordWorld_def)

text \<open>
  C3, amended: the warning is logged only when every step of \<open>loadConfigFile\<close> has
  succeeded: the first run of the flag parser, with no version asked for; the ini
  parser, whose error, not a syntax error, is the text of the warning; the second run
  of the flag parser; the creation of the LiT directory; and the validation of the
  mode, which is lnd's own validation and the choice of the network in integrated mode
  and \<open>validateRemoteModeConfig\<close> in remote mode. The warning is then the only output
  of \<open>loadConfigFile\<close> and the first event of the run, and no later step logs a
  warning. The checks that \<open>loadAndValidateConfig\<close> makes afterwards come after it.
\<close>

theorem deferred_warning_position:
  assumes "LogWarn m \<in> set (fst (loadAndValidateConfig w))"
  shows "\<exists>preCfg cfgI cfg cfgL rest.
           flagsParse w (defaultConfig w) = Inr preCfg \<and>
           \<not> ShowVersion (Lnd preCfg) \<and>
           IniParse w (configFilePath w preCfg) preCfg = (cfgI, Some (IniOtherError m)) \<and>
           flagsParse w cfgI = Inr cfg \<and>
           MkdirAll w (CleanAndExpandPath w (LitDir preCfg)) = None \<and>
           (LndMode cfg = ModeIntegrated \<and>
              (\<exists>lndCfg n. lndValidateConfig w (Lnd cfg) (usageMessage w) = Inr lndCfg \<and>
                 getNetwork (Bitcoin lndCfg) = Inr n \<and>
                 cfgL = cfg\<lparr>Lnd := lndCfg, network := n\<rparr>) \<or>
            LndMode cfg = ModeRemote \<and> validateRemoteModeConfig w cfg = ([], cfgL, None)) \<and>
           loadConfigFile w preCfg (usageMessage w) = ([LogWarn m], Inr cfgL) \<and>
           fst (loadAndValidateConfig w) = LogWarn m # rest \<and>
           (\<forall>m'. LogWarn m' \<notin> set rest)"
proof (cases "flagsParse w (defaultConfig w)")
  case (Inl err)
  with assms show ?thesis by (simp add: loadAndValidateConfig_def)
next
  case (Inr preCfg)
  show ?thesis
  proof (cases "ShowVersion (Lnd preCfg)")
    case True
    with Inr assms show ?thesis by (simp add: loadAndValidateConfig_def)
  next
    case False
    obtain ev1 r where l: "loadConfigFile w preCfg (usageMessage w) = (ev1, r)"
      by (cases "loadConfigFile w preCfg (usageMessage w)")
    from loadAndValidate_events [OF Inr False l] obtain ev2
      where e: "fst (loadAndValidateConfig w) = ev1 @ ev2" and n: "\<forall>m. LogWarn m \<notin> set ev2"
      by blast
    from assms e n have "LogWarn m \<in> set ev1" by auto
    from loadConfigFile_warn [OF l this] obtain cfgI cfg cfgL where
      s: "IniParse w (configFilePath w preCfg) preCfg = (cfgI, Some (IniOtherError m))"
         "flagsParse w cfgI = Inr cfg"
         "MkdirAll w (CleanAndExpandPath w (LitDir preCfg)) = None"
         "LndMode cfg = ModeIntegrated \<and>
              (\<exists>lndCfg n. lndValidateConfig w (Lnd cfg) (usageMessage w) = Inr lndCfg \<and>
                 getNetwork (Bitcoin lndCfg) = Inr n \<and>
                 cfgL = cfg\<lparr>Lnd := lndCfg, network := n\<rparr>) \<or>
            LndMode cfg = ModeRemote \<and> validateRemoteModeConfig w cfg = ([], cfgL, None)"
         "r = Inr cfgL" "ev1 = [LogWarn m]"
      by blast
    from s(5,6) l have l': "loadConfigFile w preCfg (usageMessage w) = ([LogWarn m], Inr cfgL)"
      by simp
    from s(6) e have e': "fst (loadAndValidateConfig w) = LogWarn m # ev2" by simp
    show ?thesis
      using Inr False s(1-4) l' e' n by blast
  qed
qed

theorem deferred_warning_position_witness:
  "LogWarn ''no such file or directory'' \<in> set (fst (loadAndValidateConfig exampleWorld)) \<and>
   (\<exists>preCfg cfgI cfg cfgL rest.
      flagsParse exampleWorld (defaultConfig exampleWorld) = Inr preCfg \<and>
      \<not> ShowVersion (Lnd preCfg) \<and>
      IniParse exampleWorld (configFilePath exampleWorld preCfg) preCfg =
        (cfgI, Some (IniOtherError ''no such file or directory'')) \<and>
      flagsParse exampleWorld cfgI = Inr cfg \<and>
      MkdirAll exampleWorld (CleanAndExpandPath exampleWorld (LitDir preCfg)) = None \<and>
      (LndMode cfg = ModeIntegrated \<and>
         (\<exists>lndCfg n. lndValidateConfig exampleWorld (Lnd cfg) (usageMessage exampleWorld) = Inr lndCfg \<and>
            getNetwork (Bitcoin lndCfg) = Inr n \<and>
            cfgL = cfg\<lparr>Lnd := lndCfg, network := n\<rparr>) \<or>
       LndMode cfg = ModeRemote \<and> validateRemoteModeConfig exampleWorld cfg = ([], cfgL, None)) \<and>
      loadConfigFile exampleWorld preCfg (usageMessage exampleWorld) =
        ([LogWarn ''no such file or directory''], Inr cfgL) \<and>
      fst (loadAndValidateConfig exampleWorld) = LogWarn ''no such file or directory'' # rest \<and>
      (\<forall>m'. LogWarn m' \<notin> set rest))"
proof -
  have h: "LogWarn ''no such file or directory'' \<in> set (fst (loadAndValidateConfig exampleWorld))"
    by (simp add: run_defs default_defs path_defs trim_defs example_defs)
  from deferred_warning_position [OF h] h show ?thesis by (intro conjI)
qed

section \<open>The macaroon directory of the network (C4)\<close>

text \<open>
  C4: in remote mode, for each of the four networks and with the macaroon directory at
  its default, validation leaves the directory as it is on mainnet, and on every other
  network rewrites it to the directory of that network below the data directory that
  lnd is configured with, whose last element is the name of the network. The rewrite is
  made whether or not a later step of the validation fails.
\<close>

theorem macaroon_dir_follows_network:
  assumes "Network (RemoteLnd (Remote cfg)) = n"
    and "n \<in> {''mainnet'', ''testnet'', ''regtest'', ''simnet''}"
    and "MacaroonDir (RemoteLnd (Remote cfg)) = defaultRemoteLndMacDir w"
    and "validateRemoteModeConfig w cfg = (ev, cfg', r)"
  shows "(if n = ''mainnet''
          then MacaroonDir (RemoteLnd (Remote cfg')) = MacaroonDir (RemoteLnd (Remote cfg))
          else MacaroonDir (RemoteLnd (Remote cfg')) =
                 Join [DataDir (Lnd cfg), ''chain'', ''bitcoin'', n] \<and>
               Base (MacaroonDir (RemoteLnd (Remote cfg'))) = n)"
proof -
  have ok: "ChainParamsOk (Network (RemoteLnd (Remote cfg)))"
    using assms(1,2) by (auto simp: ChainParamsOk_def)
  have b: "Base (Join ([DataDir (Lnd cfg), ''chain'', ''bitcoin''] @ [n])) = n"
    using assms(2) by (intro Base_Join_snoc) auto
  have m: "MacaroonDir (RemoteLnd (Remote cfg')) =
             (if n = ''mainnet'' then MacaroonDir (RemoteLnd (Remote cfg))
              else Join [DataDir (Lnd cfg), ''chain'', ''bitcoin'', n])"
    using validateRemote_macaroonDir [OF ok assms(3,4)] unfolding assms(1) .
  show ?thesis
  proof (cases "n = ''mainnet''")
    case True
    with m show ?thesis by simp
  next
    case False
    with m have "MacaroonDir (RemoteLnd (Remote cfg')) =
        Join [DataDir (Lnd cfg), ''chain'', ''bitcoin'', n]" by simp
    moreover from b have "Base (Join [DataDir (Lnd cfg), ''chain'', ''bitcoin'', n]) = n"
      by simp
    ultimately show ?thesis using False by simp
  qed
qed

theorem macaroon_dir_follows_network_witness:
  "Network (RemoteLnd (Remote testnetConfig)) = ''testnet'' \<and>
   ''testnet'' \<in> {''mainnet'', ''testnet'', ''regtest'', ''simnet''} \<and>
   MacaroonDir (RemoteLnd (Remote testnetConfig)) = defaultRemoteLndMacDir exampleWorld \<and>
   MacaroonDir (RemoteLnd (Remote (fst (snd (validateRemoteModeConfig exampleWorld testnetConfig))))) =
     ''/home/lit/.lnd/data/chain/bitcoin/testnet'' \<and>
   Base (MacaroonDir (RemoteLnd (Remote (fst (snd (validateRemoteModeConfig exampleWorld testnetConfig)))))) =
     ''testnet'' \<and>
   Network (RemoteLnd (Remote customDataDirConfig)) = ''testnet'' \<and>
   MacaroonDir (RemoteLnd (Remote customDataDirConfig)) = defaultRemoteLndMacDir exampleWorld \<and>
   MacaroonDir (RemoteLnd (Remote (fst (snd (validateRemoteModeConfig exampleWorld customDataDirConfig))))) =
     ''/home/lit/custom-lnd/chain/bitcoin/testnet''"
proof -
  have n: "Network (RemoteLnd (Remote testnetConfig)) = ''testnet''"
    "Network (RemoteLnd (Remote customDataDirConfig)) = ''testnet''"
    by (simp_all add: testnetConfig_def customDataDirConfig_def)
  have d: "MacaroonDir (RemoteLnd (Remote testnetConfig)) = defaultRemoteLndMacDir exampleWorld"
    "MacaroonDir (RemoteLnd (Remote customDataDirConfig)) = defaultRemoteLndMacDir exampleWorld"
    by (simp_all add: testnetConfig_def customDataDirConfig_def defaultConfig_def)
  have v: "validateRemoteModeConfig exampleWorld c =
             (fst (validateRemoteModeConfig exampleWorld c),
              fst (snd (validateRemoteModeConfig exampleWorld c)),
              snd (snd (validateRemoteModeConfig exampleWorld c)))" for c
    by simp
  have j: "Join [DataDir (Lnd testnetConfig), ''chain'', ''bitcoin'', ''testnet''] =
             ''/home/lit/.lnd/data/chain/bitcoin/testnet''"
    "Join [DataDir (Lnd customDataDirConfig), ''chain'', ''bitcoin'', ''testnet''] =
             ''/home/lit/custom-lnd/chain/bitcoin/testnet''"
    by (simp_all add: path_defs example_defs testnetConfig_def customDataDirConfig_def
        defaultConfig_def)
  have b: "Base ''/home/lit/.lnd/data/chain/bitcoin/testnet'' = ''testnet''"
    by (simp add: Base_def)
  from macaroon_dir_follows_network [OF n(1) _ d(1) v]
    macaroon_dir_follows_network [OF n(2) _ d(2) v] n d j b
  show ?thesis by simp
qed

section \<open>The self-signed certificate (C5)\<close>

text \<open>
  C5: in remote mode without Let's Encrypt, when the certificate file or the key file
  exists the files are left as they are and the pair is loaded from them; the files
  change only when neither exists, and when neither exists they are what the generation
  of the pair leaves.
\<close>

theorem self_signed_never_overwrites:
  assumes "\<not> LetsEncrypt cfg" and "LndMode cfg = ModeRemote"
  shows "(FileExists (files w) (LitTLSCertPath (Remote cfg)) \<or>
          FileExists (files w) (LitTLSKeyPath (Remote cfg)) \<longrightarrow>
            buildTLSConfigForHttp2 w cfg =
              (files w,
               case LoadCert w (files w) (LitTLSCertPath (Remote cfg)) (LitTLSKeyPath (Remote cfg)) of
                 Inl err \<Rightarrow> Inl (CertLoadFailed err)
               | Inr tlsCert \<Rightarrow> http2PostProcess w (TLSConfFromCert w tlsCert))) \<and>
         (fst (buildTLSConfigForHttp2 w cfg) \<noteq> files w \<longrightarrow>
            \<not> FileExists (files w) (LitTLSCertPath (Remote cfg)) \<and>
            \<not> FileExists (files w) (LitTLSKeyPath (Remote cfg))) \<and>
         (\<not> FileExists (files w) (LitTLSCertPath (Remote cfg)) \<and>
          \<not> FileExists (files w) (LitTLSKeyPath (Remote cfg)) \<longrightarrow>
            fst (buildTLSConfigForHttp2 w cfg) =
              fst (GenCertPair w (files w) defaultSelfSignedCertOrganization
                     (LitTLSCertPath (Remote cfg)) (LitTLSKeyPath (Remote cfg))))"
  using assms
  by (auto simp: buildTLSConfigForHttp2_def Let_def split: prod.splits option.splits sum.splits)

theorem self_signed_never_overwrites_witness:
  "\<not> LetsEncrypt (defaultConfig exampleWorld) \<and>
   LndMode (defaultConfig exampleWorld) = ModeRemote \<and>
   FileExists (files operatorCertWorld) (LitTLSCertPath (Remote (defaultConfig exampleWorld))) \<and>
   buildTLSConfigForHttp2 operatorCertWorld (defaultConfig exampleWorld) =
     (files operatorCertWorld, Inl (CertLoadFailed ''no such file or directory'')) \<and>
   fst (buildTLSConfigForHttp2 exampleWorld (defaultConfig exampleWorld)) \<noteq> files exampleWorld \<and>
   fst (buildTLSConfigForHttp2 exampleWorld (defaultConfig exampleWorld)) =
     [''/home/lit/.lit/tls.cert'' \<mapsto> ''generated cert'', ''/home/lit/.lit/tls.key'' \<mapsto> ''generated key'']"
proof -
  have a: "\<not> LetsEncrypt (defaultConfig exampleWorld)" "LndMode (defaultConfig exampleWorld) = ModeRemote"
    by (simp_all add: defaultConfig_def)
  have g0: "fst (buildTLSConfigForHttp2 exampleWorld (defaultConfig exampleWorld)) =
     [''/home/lit/.lit/tls.cert'' \<mapsto> ''generated cert'', ''/home/lit/.lit/tls.key'' \<mapsto> ''generated key'']"
    by (simp add: buildTLSConfigForHttp2_def FileExists_def LoadCert_def http2PostProcess_def
        TLSConfFromCert_def default_defs path_defs example_defs)
  have "files exampleWorld = Map.empty" by (simp add: exampleWorld_def)
  with g0 have g: "fst (buildTLSConfigForHttp2 exampleWorld (defaultConfig exampleWorld)) \<noteq> files exampleWorld"
    by simp
  from self_signed_never_overwrites [OF a, of operatorCertWorld]
    self_signed_never_overwrites [OF a, of exampleWorld] g g0 a
  show ?thesis
    by (simp add: FileExists_def LoadCert_def default_defs path_defs example_defs
        operatorCertWorld_def)
qed

section \<open>The dial address (C6, C9)\<close>

text \<open>
  C6: for the in-process lnd the listen address \<open>0.0.0.0:10009\<close> is dialled as
  \<open>127.0.0.1:10009\<close>, \<open>[::]:10009\<close> as \<open>[::1]:10009\<close>, and \<open>192.168.1.5:10009\<close> as
  it is.
\<close>

theorem dial_address_loopback_rewrite:
  "lndConnectParams w
     (cfg\<lparr>LndMode := ModeIntegrated,
          Lnd := (Lnd cfg)\<lparr>RPCListeners := [TCPAddr True ''0.0.0.0:10009'']\<rparr>\<rparr>) =
     Returns (''127.0.0.1:10009'', network cfg, LndTLSCertPath (Lnd cfg), AdminMacPath (Lnd cfg)) \<and>
   lndConnectParams w
     (cfg\<lparr>LndMode := ModeIntegrated,
          Lnd := (Lnd cfg)\<lparr>RPCListeners := [TCPAddr False ''[::]:10009'']\<rparr>\<rparr>) =
     Returns (''[::1]:10009'', network cfg, LndTLSCertPath (Lnd cfg), AdminMacPath (Lnd cfg)) \<and>
   lndConnectParams w
     (cfg\<lparr>LndMode := ModeIntegrated,
          Lnd := (Lnd cfg)\<lparr>RPCListeners := [TCPAddr True ''192.168.1.5:10009'']\<rparr>\<rparr>) =
     Returns (''192.168.1.5:10009'', network cfg, LndTLSCertPath (Lnd cfg), AdminMacPath (Lnd cfg))"
  by (simp add: lndConnectParams_def rewriteDialAddr_def)

text \<open>
  C9: the rewrite looks for \<open>0.0.0.0\<close> anywhere in the address. \<open>10.0.0.0:10009\<close>
  does not start with it but contains it, and is dialled as \<open>1127.0.0.1:10009\<close>.
\<close>

theorem dial_address_substring_match:
  "lndConnectParams w
     (cfg\<lparr>LndMode := ModeIntegrated,
          Lnd := (Lnd cfg)\<lparr>RPCListeners := [TCPAddr True ''10.0.0.0:10009'']\<rparr>\<rparr>) =
     Returns (''1127.0.0.1:10009'', network cfg, LndTLSCertPath (Lnd cfg), AdminMacPath (Lnd cfg)) \<and>
   \<not> HasPrefix ''10.0.0.0:10009'' ''0.0.0.0'' \<and>
   Contains ''10.0.0.0:10009'' ''0.0.0.0'' \<and>
   rewriteDialAddr ''10.0.0.0:10009'' \<noteq> ''10.0.0.0:10009''"
  by (simp add: lndConnectParams_def rewriteDialAddr_def)

section \<open>The environment variable (C7)\<close>

text \<open>
  C7 says that a variable that is unset or blank, empty or white space only, fails with
  \<open>EnvVarEmpty\<close>. The code tests the length of the value before it trims it: a
  variable of three spaces is accepted and gives the empty credential.
\<close>

theorem env_var_blank_counterexample:
  "TrimSpace (UIPassword (credentialConfig [] [] ''LIT_UI_PASSWORD'')) = [] \<and>
   TrimSpace (UIPasswordFile (credentialConfig [] [] ''LIT_UI_PASSWORD'')) = [] \<and>
   TrimSpace (UIPasswordEnv (credentialConfig [] [] ''LIT_UI_PASSWORD'')) \<noteq> [] \<and>
   Getenv (credentialWorld [] ''   '') ''LIT_UI_PASSWORD'' = ''   '' \<and>
   TrimSpace ''   '' = [] \<and>
   readUIPassword (credentialWorld [] ''   '') (credentialConfig [] [] ''LIT_UI_PASSWORD'') =
     Inr ((credentialConfig [] [] ''LIT_UI_PASSWORD'')\<lparr>UIPassword := []\<rparr>)"
  by (simp add: readUIPassword_def Getenv_def credentialWorld_def credentialConfig_def
      exampleWorld_def trim_defs)

text \<open>
  C7, amended: with the direct value and the password file blank and the name of a
  variable given, resolution fails with \<open>EnvVarEmpty\<close> whenever the variable is unset
  or empty.
\<close>

theorem env_var_empty:
  assumes "TrimSpace (UIPassword cfg) = []"
    and "TrimSpace (UIPasswordFile cfg) = []"
    and "TrimSpace (UIPasswordEnv cfg) \<noteq> []"
    and "environ w (TrimSpace (UIPasswordEnv cfg)) = None \<or>
         environ w (TrimSpace (UIPasswordEnv cfg)) = Some []"
  shows "readUIPassword w cfg = Inl (EnvVarEmpty (UIPasswordEnv cfg))"
  using assms by (auto simp: readUIPassword_def Getenv_def)

theorem env_var_empty_witness:
  "TrimSpace (UIPassword (credentialConfig [] [] ''LIT_UI_PASSWORD'')) = [] \<and>
   TrimSpace (UIPasswordFile (credentialConfig [] [] ''LIT_UI_PASSWORD'')) = [] \<and>
   TrimSpace (UIPasswordEnv (credentialConfig [] [] ''LIT_UI_PASSWORD'')) \<noteq> [] \<and>
   environ exampleWorld ''LIT_UI_PASSWORD'' = None \<and>
   readUIPassword exampleWorld (credentialConfig [] [] ''LIT_UI_PASSWORD'') =
     Inl (EnvVarEmpty ''LIT_UI_PASSWORD'') \<and>
   environ (credentialWorld [] []) ''LIT_UI_PASSWORD'' = Some [] \<and>
   readUIPassword (credentialWorld [] []) (credentialConfig [] [] ''LIT_UI_PASSWORD'') =
     Inl (EnvVarEmpty ''LIT_UI_PASSWORD'')"
  using
    env_var_empty [of "credentialConfig [] [] ''LIT_UI_PASSWORD''" exampleWorld]
    env_var_empty [of "credentialConfig [] [] ''LIT_UI_PASSWORD''" "credentialWorld [] []"]
  by (simp add: credentialWorld_def credentialConfig_def exampleWorld_def trim_defs)

section \<open>The length of the credential (C8)\<close>

text \<open>
  C8 says that a credential shorter than 8 characters always fails with
  \<open>CredentialTooWeak\<close>. The code compares \<open>len\<close>, the number of bytes, with 8: a
  password of seven characters of which one takes two bytes is accepted, and resolution
  succeeds.
\<close>

theorem credential_length_counterexample:
  "characters umlautPassword = 7 \<and>
   length umlautPassword = 8 \<and>
   loadAndValidateConfig (passwordWorld umlautPassword) =
     ([LogWarn ''no such file or directory''], Returns (Inr (resolvedWith umlautPassword)))"
  by (simp add: run_defs default_defs path_defs trim_defs example_defs passwordWorld_def
      characters_def umlautPassword_def resolvedWith_def remoteResolved_def)

text \<open>
  C8, amended: once the credential is resolved, resolution fails with
  \<open>CredentialTooWeak\<close> exactly when the credential, which is trimmed, is shorter than
  8 bytes; so a shorter one always fails with that error, and a credential of 8
  characters or more, which has at least 8 bytes, always passes the length check.
\<close>

theorem credential_length_check:
  assumes "flagsParse w (defaultConfig w) = Inr preCfg"
    and "\<not> ShowVersion (Lnd preCfg)"
    and "loadConfigFile w preCfg (usageMessage w) = (ev, Inr cfgL)"
    and "LetsEncrypt cfgL \<longrightarrow>
           LetsEncryptHost cfgL \<noteq> [] \<and>
           MkdirAll w (LetsEncryptDir (resolveLetsEncryptDir w cfgL)) = None"
    and "readUIPassword w (resolveLetsEncryptDir w cfgL) = Inr cfg2"
  shows "(snd (loadAndValidateConfig w) = Returns (Inl CredentialTooWeak) \<longleftrightarrow>
            length (UIPassword cfg2) < 8) \<and>
         (8 \<le> characters (UIPassword cfg2) \<longrightarrow>
            snd (loadAndValidateConfig w) \<noteq> Returns (Inl CredentialTooWeak))"
proof -
  have "snd (loadAndValidateConfig w) = Returns (Inl CredentialTooWeak) \<longleftrightarrow>
          length (UIPassword cfg2) < 8"
    using assms
    by (auto simp: loadAndValidateConfig_def Let_def makeDirectories_ok
        split: if_splits prod.splits option.splits sum.splits)
  moreover have "8 \<le> characters (UIPassword cfg2) \<Longrightarrow> \<not> length (UIPassword cfg2) < 8"
    using characters_le [of "UIPassword cfg2"] by simp
  ultimately show ?thesis by blast
qed

theorem credential_length_check_witness:
  "readUIPassword (passwordWorld '' hunter2 '')
     (resolveLetsEncryptDir (passwordWorld '' hunter2 '') (remoteResolved '' hunter2 '')) =
     Inr (remoteResolved ''hunter2'') \<and>
   length (UIPassword (remoteResolved ''hunter2'')) < uiPasswordMinLength \<and>
   snd (loadAndValidateConfig (passwordWorld '' hunter2 '')) = Returns (Inl CredentialTooWeak) \<and>
   readUIPassword (passwordWorld '' hunter22 '')
     (resolveLetsEncryptDir (passwordWorld '' hunter22 '') (remoteResolved '' hunter22 '')) =
     Inr (remoteResolved ''hunter22'') \<and>
   length (UIPassword (remoteResolved ''hunter22'')) = uiPasswordMinLength \<and>
   8 \<le> characters (UIPassword (remoteResolved ''hunter22'')) \<and>
   snd (loadAndValidateConfig (passwordWorld '' hunter22 '')) \<noteq> Returns (Inl CredentialTooWeak)"
proof -
  have l: "loadConfigFile (passwordWorld pw) ((defaultConfig exampleWorld)\<lparr>UIPassword := pw\<rparr>)
             (usageMessage (passwordWorld pw)) =
           ([LogWarn ''no such file or directory''], Inr (remoteResolved pw))"
    for pw
    by (simp add: loadConfigFile_def validateRemoteModeConfig_def makeDirectories_def
        configFilePath_def ChainParamsOk_def default_defs path_defs example_defs passwordWorld_def
        remoteResolved_def)
  have f: "flagsParse (passwordWorld pw) (defaultConfig (passwordWorld pw)) =
             Inr ((defaultConfig exampleWorld)\<lparr>UIPassword := pw\<rparr>)" for pw
    by (simp add: default_defs passwordWorld_def example_defs)
  have s: "\<not> ShowVersion (Lnd ((defaultConfig exampleWorld)\<lparr>UIPassword := pw\<rparr>))" for pw
    by (simp add: default_defs example_defs)
  have e: "LetsEncrypt (remoteResolved pw) \<longrightarrow>
             LetsEncryptHost (remoteResolved pw) \<noteq> [] \<and>
             MkdirAll (passwordWorld pw) (LetsEncryptDir (resolveLetsEncryptDir (passwordWorld pw)
               (remoteResolved pw))) = None" for pw
    by (simp add: default_defs remoteResolved_def)
  have r7: "readUIPassword (passwordWorld '' hunter2 '')
     (resolveLetsEncryptDir (passwordWorld '' hunter2 '') (remoteResolved '' hunter2 '')) =
     Inr (remoteResolved ''hunter2'')"
    by (simp add: readUIPassword_def resolveLetsEncryptDir_def default_defs path_defs trim_defs
        example_defs passwordWorld_def remoteResolved_def)
  have r8: "readUIPassword (passwordWorld '' hunter22 '')
     (resolveLetsEncryptDir (passwordWorld '' hunter22 '') (remoteResolved '' hunter22 '')) =
     Inr (remoteResolved ''hunter22'')"
    by (simp add: readUIPassword_def resolveLetsEncryptDir_def default_defs path_defs trim_defs
        example_defs passwordWorld_def remoteResolved_def)
  have n: "length (UIPassword (remoteResolved ''hunter2'')) = 7"
    "length (UIPassword (remoteResolved ''hunter22'')) = 8"
    "characters (UIPassword (remoteResolved ''hunter22'')) = 8"
    by (simp_all add: remoteResolved_def characters_def)
  from credential_length_check [OF f s l e r7] credential_length_check [OF f s l e r8] r7 r8 n
  show ?thesis by simp
qed

section \<open>Closing a listener that is not bound (C10)\<close>

text \<open>
  C10: \<open>Close\<close> on a listener that is not bound panics on the \<open>nil\<close> listener. It
  still panics after an \<open>Accept\<close> whose \<open>net.Listen\<close> failed, and returns once an
  \<open>Accept\<close> has bound the listener.
\<close>

theorem close_before_accept_panics:
  assumes "lis l = None"
  shows "Close w l = Panics ''invalid memory address or nil pointer dereference'' \<and>
         (netListen w (parseNetwork (addr l)) (addrString (addr l)) = Inl err \<longrightarrow>
            Accept w l = (l, Inl err) \<and>
            Close w (fst (Accept w l)) = Panics ''invalid memory address or nil pointer dereference'') \<and>
         (netListen w (parseNetwork (addr l)) (addrString (addr l)) = Inr h \<longrightarrow>
            lis (fst (Accept w l)) = Some h \<and>
            Close w (fst (Accept w l)) = Returns (lisClose w h))"
  using assms by (simp add: Close_def Accept_def)

theorem close_before_accept_panics_witness:
  "lis exampleListener = None \<and>
   Close exampleWorld exampleListener = Panics ''invalid memory address or nil pointer dereference'' \<and>
   netListen exampleWorld (parseNetwork (addr exampleListener)) (addrString (addr exampleListener)) = Inr 3 \<and>
   Close exampleWorld (fst (Accept exampleWorld exampleListener)) = Returns None \<and>
   netListen (exampleWorld\<lparr>netListen := (\<lambda>net address. Inl ''address already in use'')\<rparr>)
     (parseNetwork (addr exampleListener)) (addrString (addr exampleListener)) =
     Inl ''address already in use'' \<and>
   Close (exampleWorld\<lparr>netListen := (\<lambda>net address. Inl ''address already in use'')\<rparr>)
     (fst (Accept (exampleWorld\<lparr>netListen := (\<lambda>net address. Inl ''address already in use'')\<rparr>)
        exampleListener)) = Panics ''invalid memory address or nil pointer dereference''"
proof -
  have n: "lis exampleListener = None" by (simp add: exampleListener_def)
  from close_before_accept_panics [OF n, of exampleWorld _ 3]
    close_before_accept_panics [OF n,
      of "exampleWorld\<lparr>netListen := (\<lambda>net address. Inl ''address already in use'')\<rparr>"
         "''address already in use''"] n
  show ?thesis by (simp add: exampleWorld_def)
qed

end
